theory Spec2Isabelle
  imports Complex_Main "HOL-Library.Log_Nat"
begin

section \<open>BlackRoad Facilities Management: the data-access layer\<close>

text \<open>
  A shallow embedding of \<^verbatim>\<open>src/facilities_management.py\<close>: the three dataclasses, the
  three SQLite tables of \<^verbatim>\<open>_init_db\<close>, and the methods of the class
  \<^verbatim>\<open>FacilitiesManagement\<close>.

  Modelling conventions.
  \<^item> Python \<^verbatim>\<open>int\<close> is \<open>int\<close> and \<^verbatim>\<open>str\<close> is \<open>string\<close>. The one \<^verbatim>\<open>float\<close> field
    (\<^verbatim>\<open>total_sqft\<close>) holds a \<open>pynum\<close>: the integer or float that the caller passed, or
    what the \<^verbatim>\<open>REAL\<close> column gives back.
  \<^item> A table is the list of its rows in rowid order, which is the order in which SQLite
    scans a rowid table; a row is the tuple of its columns in declaration order, as
    \<^verbatim>\<open>fetchall\<close> returns it.
  \<^item> \<^verbatim>\<open>datetime.now().isoformat()\<close> is a parameter \<open>now\<close> of every method that reads
    the clock.
  \<^item> Every method takes the store and returns its result (an error or a value) together
    with the store it leaves behind; a raised exception leaves the store as it was, since
    the connection's context manager rolls back.
  \<^item> Binding a parameter can fail: \<^verbatim>\<open>sqlite3\<close> raises \<^verbatim>\<open>OverflowError\<close> for an integer
    outside the signed 64-bit range, before the statement runs. A column of type
    \<^verbatim>\<open>REAL\<close> converts what it is given. Both are part of the model.
  \<^item> The exhaustion of the rowid space is not modelled: no method of the class can
    produce a row with the largest rowid.
\<close>

subsection \<open>What SQLite stores of a Python value\<close>

text \<open>An integer can be bound to a statement if it fits SQLite's \<^verbatim>\<open>INTEGER\<close>.\<close>

definition sqlite_int :: "int \<Rightarrow> bool" where
  "sqlite_int i \<longleftrightarrow> - (2 ^ 63) \<le> i \<and> i < 2 ^ 63"

text \<open>The values that \<^verbatim>\<open>sqft\<close> and \<^verbatim>\<open>total_sqft\<close> take: \<^verbatim>\<open>None\<close>, an integer (the default
  is the integer 0), or a float, which is a finite number, an infinity or not a number.\<close>

datatype pynum = PyNone | PyInt int | PyFloat real | PyInf | PyNegInf | PyNaN

fun bindable_num :: "pynum \<Rightarrow> bool" where
  "bindable_num (PyInt i) = sqlite_int i"
| "bindable_num v = True"

text \<open>A 64-bit integer as a double, rounded to 53 significant bits, to the nearest and to
  the even one of two nearest.\<close>

definition int_to_double :: "int \<Rightarrow> real" where
  "int_to_double i =
     (if \<bar>i\<bar> \<le> 2 ^ 53 then real_of_int i
      else
        let e = nat (bitlen \<bar>i\<bar> - 53);
            q = \<bar>i\<bar> div 2 ^ e;
            r = \<bar>i\<bar> mod 2 ^ e;
            q' = (if 2 ^ (e - 1) < r \<or> (r = 2 ^ (e - 1) \<and> odd q) then q + 1 else q)
        in real_of_int (sgn i * (q' * 2 ^ e)))"

text \<open>What a column of type \<^verbatim>\<open>REAL\<close> gives back for a value stored in it: an integer
  becomes a float, not-a-number becomes \<^verbatim>\<open>NULL\<close>, everything else is kept.\<close>

fun sqlite_real :: "pynum \<Rightarrow> pynum" where
  "sqlite_real (PyInt i) = PyFloat (int_to_double i)"
| "sqlite_real PyNaN = PyNone"
| "sqlite_real v = v"

text \<open>Python's \<^verbatim>\<open>==\<close> on these values: integers and floats are compared by their exact
  value, not-a-number equals nothing.\<close>

fun py_eq :: "pynum \<Rightarrow> pynum \<Rightarrow> bool" where
  "py_eq PyNone PyNone = True"
| "py_eq (PyInt i) (PyInt j) = (i = j)"
| "py_eq (PyInt i) (PyFloat y) = (real_of_int i = y)"
| "py_eq (PyFloat x) (PyInt j) = (x = real_of_int j)"
| "py_eq (PyFloat x) (PyFloat y) = (x = y)"
| "py_eq PyInf PyInf = True"
| "py_eq PyNegInf PyNegInf = True"
| "py_eq v w = False"

text \<open>The values that can be bound and that the \<^verbatim>\<open>REAL\<close> column gives back unchanged in
  value.\<close>

fun storable_num :: "pynum \<Rightarrow> bool" where
  "storable_num (PyInt i) = (sqlite_int i \<and> int_to_double i = real_of_int i)"
| "storable_num PyNaN = False"
| "storable_num v = True"

subsection \<open>Records (the dataclasses)\<close>

record Building =
  b_id :: int
  b_name :: string
  b_address :: string
  b_floors :: int
  b_total_sqft :: pynum
  b_building_type :: string
  b_created_at :: string
  b_active :: int

record Room =
  r_id :: int
  r_building_id :: int
  r_name :: string
  r_floor :: int
  r_capacity :: int
  r_room_type :: string
  r_status :: string
  r_created_at :: string

record Asset =
  a_id :: int
  a_room_id :: int
  a_name :: string
  a_asset_type :: string
  a_serial_number :: string
  a_purchase_date :: string
  a_condition :: string
  a_last_inspected :: string
  a_notes :: string

subsection \<open>Rows and tables (the schema of \<^verbatim>\<open>_init_db\<close>)\<close>

text \<open>Columns of \<^verbatim>\<open>buildings\<close>: id, name, address, floors, total_sqft, building_type,
  created_at, active.\<close>

type_synonym building_row = "int \<times> string \<times> string \<times> int \<times> pynum \<times> string \<times> string \<times> int"

text \<open>Columns of \<^verbatim>\<open>rooms\<close>: id, building_id, name, floor, capacity, room_type, status,
  created_at.\<close>

type_synonym room_row = "int \<times> int \<times> string \<times> int \<times> int \<times> string \<times> string \<times> string"

text \<open>Columns of \<^verbatim>\<open>assets\<close>: id, room_id, name, asset_type, serial_number, purchase_date,
  condition, last_inspected, notes.\<close>

type_synonym asset_row =
  "int \<times> int \<times> string \<times> string \<times> string \<times> string \<times> string \<times> string \<times> string"

fun bcol_id :: "building_row \<Rightarrow> int" where
  "bcol_id (i, n, ad, f, q, t, c, act) = i"

fun bcol_name :: "building_row \<Rightarrow> string" where
  "bcol_name (i, n, ad, f, q, t, c, act) = n"

fun bcol_active :: "building_row \<Rightarrow> int" where
  "bcol_active (i, n, ad, f, q, t, c, act) = act"

fun rcol_id :: "room_row \<Rightarrow> int" where
  "rcol_id (i, b, n, f, cap, t, st, c) = i"

fun rcol_building_id :: "room_row \<Rightarrow> int" where
  "rcol_building_id (i, b, n, f, cap, t, st, c) = b"

fun rcol_status :: "room_row \<Rightarrow> string" where
  "rcol_status (i, b, n, f, cap, t, st, c) = st"

fun acol_id :: "asset_row \<Rightarrow> int" where
  "acol_id (i, r, n, t, sn, pd, cond, li, nt) = i"

fun acol_room_id :: "asset_row \<Rightarrow> int" where
  "acol_room_id (i, r, n, t, sn, pd, cond, li, nt) = r"

text \<open>\<^verbatim>\<open>Building(*r)\<close>, \<^verbatim>\<open>Room(*r)\<close>, \<^verbatim>\<open>Asset(*r)\<close>: the row's columns become the
  dataclass's fields by position.\<close>

fun Building_of_row :: "building_row \<Rightarrow> Building" where
  "Building_of_row (i, n, ad, f, q, t, c, act) =
     \<lparr>b_id = i, b_name = n, b_address = ad, b_floors = f, b_total_sqft = q,
      b_building_type = t, b_created_at = c, b_active = act\<rparr>"

fun Room_of_row :: "room_row \<Rightarrow> Room" where
  "Room_of_row (i, b, n, f, cap, t, st, c) =
     \<lparr>r_id = i, r_building_id = b, r_name = n, r_floor = f, r_capacity = cap,
      r_room_type = t, r_status = st, r_created_at = c\<rparr>"

fun Asset_of_row :: "asset_row \<Rightarrow> Asset" where
  "Asset_of_row (i, r, n, t, sn, pd, cond, li, nt) =
     \<lparr>a_id = i, a_room_id = r, a_name = n, a_asset_type = t, a_serial_number = sn,
      a_purchase_date = pd, a_condition = cond, a_last_inspected = li, a_notes = nt\<rparr>"

text \<open>The store: the database file at \<open>db_path\<close>. Each table has the AUTOINCREMENT
  counter that SQLite keeps for it in \<^verbatim>\<open>sqlite_sequence\<close>.\<close>

record store =
  db_path :: string
  tbl_buildings :: "building_row list"
  tbl_rooms :: "room_row list"
  tbl_assets :: "asset_row list"
  seq_buildings :: int
  seq_rooms :: int
  seq_assets :: int

definition empty_store :: "string \<Rightarrow> store" where
  "empty_store p =
     \<lparr>db_path = p, tbl_buildings = [], tbl_rooms = [], tbl_assets = [],
      seq_buildings = 0, seq_rooms = 0, seq_assets = 0\<rparr>"

text \<open>\<^verbatim>\<open>INTEGER PRIMARY KEY AUTOINCREMENT\<close>: the new rowid is one more than the largest
  rowid the table holds or has ever handed out, and 1 at least in an empty table.\<close>

definition next_rowid :: "int \<Rightarrow> int list \<Rightarrow> int" where
  "next_rowid sq ids = max (sq + 1) (if ids = [] then 1 else Max (set ids) + 1)"

subsection \<open>Errors\<close>

text \<open>\<^verbatim>\<open>ValueError\<close> is raised by \<^verbatim>\<open>add_room\<close>; \<^verbatim>\<open>sqlite3.IntegrityError\<close> comes from the
  \<^verbatim>\<open>UNIQUE\<close> constraint on \<^verbatim>\<open>buildings.name\<close>; \<^verbatim>\<open>OverflowError\<close> comes from binding an
  integer that does not fit.\<close>

datatype error = ValueError string | IntegrityError string | OverflowError string

definition overflow_error :: error where
  "overflow_error = OverflowError ''Python int too large to convert to SQLite INTEGER''"

definition not_found_message :: "string \<Rightarrow> string" where
  "not_found_message building_name =
     ''Building '' @ [CHR 0x27] @ building_name @ [CHR 0x27] @ '' not found''"

subsection \<open>The methods of \<^verbatim>\<open>FacilitiesManagement\<close>\<close>

text \<open>The parameters that have default values in the source are ordinary arguments here.\<close>

text \<open>\<^verbatim>\<open>SELECT id FROM buildings WHERE name=?\<close> followed by \<^verbatim>\<open>fetchone()\<close>: the first
  matching row, or \<^verbatim>\<open>None\<close>.\<close>

definition select_building_id :: "store \<Rightarrow> string \<Rightarrow> int option" where
  "select_building_id s building_name =
     (case filter (\<lambda>r. bcol_name r = building_name) (tbl_buildings s) of
        [] \<Rightarrow> None
      | r # _ \<Rightarrow> Some (bcol_id r))"

text \<open>The parameters of the \<^verbatim>\<open>INSERT\<close> are bound before it runs, so an integer that does
  not fit is refused before the \<^verbatim>\<open>UNIQUE\<close> constraint is looked at. The row holds what
  the \<^verbatim>\<open>REAL\<close> column makes of \<^verbatim>\<open>sqft\<close>; the record returned holds \<^verbatim>\<open>sqft\<close> as passed.\<close>

definition add_building ::
  "store \<Rightarrow> string \<Rightarrow> string \<Rightarrow> string \<Rightarrow> int \<Rightarrow> pynum \<Rightarrow> string \<Rightarrow> (error + Building) \<times> store" where
  "add_building s now name address floors sqft building_type =
     (if \<not> (sqlite_int floors \<and> bindable_num sqft)
      then (Inl overflow_error, s)
      else if name \<in> set (map bcol_name (tbl_buildings s))
      then (Inl (IntegrityError ''UNIQUE constraint failed: buildings.name''), s)
      else
        let lastrowid = next_rowid (seq_buildings s) (map bcol_id (tbl_buildings s))
        in (Inr \<lparr>b_id = lastrowid, b_name = name, b_address = address, b_floors = floors,
                 b_total_sqft = sqft, b_building_type = building_type, b_created_at = now,
                 b_active = 1\<rparr>,
            s\<lparr>tbl_buildings := tbl_buildings s @
                 [(lastrowid, name, address, floors, sqlite_real sqft, building_type, now, 1)],
              seq_buildings := lastrowid\<rparr>))"

text \<open>The \<^verbatim>\<open>SELECT\<close> binds the name only; \<^verbatim>\<open>floor\<close> and \<^verbatim>\<open>capacity\<close> are bound by the
  \<^verbatim>\<open>INSERT\<close>, after the building has been found.\<close>

definition add_room ::
  "store \<Rightarrow> string \<Rightarrow> string \<Rightarrow> string \<Rightarrow> int \<Rightarrow> int \<Rightarrow> string \<Rightarrow> (error + Room) \<times> store" where
  "add_room s now building_name room_name floor' capacity room_type =
     (case select_building_id s building_name of
        None \<Rightarrow> (Inl (ValueError (not_found_message building_name)), s)
      | Some b \<Rightarrow>
          if \<not> (sqlite_int floor' \<and> sqlite_int capacity)
          then (Inl overflow_error, s)
          else
            let lastrowid = next_rowid (seq_rooms s) (map rcol_id (tbl_rooms s))
            in (Inr \<lparr>r_id = lastrowid, r_building_id = b, r_name = room_name,
                     r_floor = floor', r_capacity = capacity, r_room_type = room_type,
                     r_status = ''available'', r_created_at = now\<rparr>,
                s\<lparr>tbl_rooms := tbl_rooms s @
                     [(lastrowid, b, room_name, floor', capacity, room_type, ''available'',
                       now)],
                  seq_rooms := lastrowid\<rparr>))"

text \<open>The \<^verbatim>\<open>REFERENCES\<close> clauses of the schema are not enforced: the connections never turn
  \<^verbatim>\<open>foreign_keys\<close> on. So \<^verbatim>\<open>add_asset\<close> fails only when \<^verbatim>\<open>room_id\<close> cannot be bound.\<close>

definition add_asset ::
  "store \<Rightarrow> string \<Rightarrow> int \<Rightarrow> string \<Rightarrow> string \<Rightarrow> string \<Rightarrow> string \<Rightarrow> string \<Rightarrow> string
     \<Rightarrow> (error + Asset) \<times> store" where
  "add_asset s now room_id name asset_type serial_number purchase_date condition notes =
     (if \<not> sqlite_int room_id
      then (Inl overflow_error, s)
      else
        let lastrowid = next_rowid (seq_assets s) (map acol_id (tbl_assets s))
        in (Inr \<lparr>a_id = lastrowid, a_room_id = room_id, a_name = name,
                 a_asset_type = asset_type, a_serial_number = serial_number,
                 a_purchase_date = purchase_date, a_condition = condition,
                 a_last_inspected = now, a_notes = notes\<rparr>,
            s\<lparr>tbl_assets := tbl_assets s @
                 [(lastrowid, room_id, name, asset_type, serial_number, purchase_date,
                   condition, now, notes)],
              seq_assets := lastrowid\<rparr>))"

definition list_buildings :: "store \<Rightarrow> Building list" where
  "list_buildings s =
     map Building_of_row (filter (\<lambda>r. bcol_active r = 1) (tbl_buildings s))"

text \<open>\<^verbatim>\<open>if building_name:\<close> is false for \<^verbatim>\<open>None\<close> and for the empty string.\<close>

definition list_rooms :: "store \<Rightarrow> string option \<Rightarrow> Room list" where
  "list_rooms s building_name =
     (case building_name of
        Some n \<Rightarrow>
          (if n \<noteq> []
           then (case select_building_id s n of
                   None \<Rightarrow> []
                 | Some b \<Rightarrow>
                     map Room_of_row (filter (\<lambda>r. rcol_building_id r = b) (tbl_rooms s)))
           else map Room_of_row (tbl_rooms s))
      | None \<Rightarrow> map Room_of_row (tbl_rooms s))"

text \<open>\<^verbatim>\<open>if room_id:\<close> is false for \<^verbatim>\<open>None\<close> and for 0. A room id that passes the test is
  bound to the \<^verbatim>\<open>SELECT\<close>, which fails if it does not fit.\<close>

definition list_assets :: "store \<Rightarrow> int option \<Rightarrow> error + Asset list" where
  "list_assets s room_id =
     (case room_id of
        Some i \<Rightarrow>
          (if i \<noteq> 0
           then (if \<not> sqlite_int i then Inl overflow_error
                 else Inr (map Asset_of_row
                             (filter (\<lambda>r. acol_room_id r = i) (tbl_assets s))))
           else Inr (map Asset_of_row (tbl_assets s)))
      | None \<Rightarrow> Inr (map Asset_of_row (tbl_assets s)))"

record Status =
  active_buildings :: int
  total_rooms :: int
  available_rooms :: int
  total_assets :: int
  status_db_path :: string

definition status :: "store \<Rightarrow> Status" where
  "status s =
     \<lparr>active_buildings = int (length (filter (\<lambda>r. bcol_active r = 1) (tbl_buildings s))),
      total_rooms = int (length (tbl_rooms s)),
      available_rooms =
        int (length (filter (\<lambda>r. rcol_status r = ''available'') (tbl_rooms s))),
      total_assets = int (length (tbl_assets s)),
      status_db_path = db_path s\<rparr>"

text \<open>\<^verbatim>\<open>asdict\<close>: a dataclass as a dictionary from field names to values, in field order.\<close>

datatype pyval = PInt int | PStr string | PNum pynum

type_synonym pydict = "(string \<times> pyval) list"

definition asdict_Building :: "Building \<Rightarrow> pydict" where
  "asdict_Building b =
     [(''id'', PInt (b_id b)), (''name'', PStr (b_name b)), (''address'', PStr (b_address b)),
      (''floors'', PInt (b_floors b)), (''total_sqft'', PNum (b_total_sqft b)),
      (''building_type'', PStr (b_building_type b)), (''created_at'', PStr (b_created_at b)),
      (''active'', PInt (b_active b))]"

definition asdict_Room :: "Room \<Rightarrow> pydict" where
  "asdict_Room r =
     [(''id'', PInt (r_id r)), (''building_id'', PInt (r_building_id r)),
      (''name'', PStr (r_name r)), (''floor'', PInt (r_floor r)),
      (''capacity'', PInt (r_capacity r)), (''room_type'', PStr (r_room_type r)),
      (''status'', PStr (r_status r)), (''created_at'', PStr (r_created_at r))]"

definition asdict_Asset :: "Asset \<Rightarrow> pydict" where
  "asdict_Asset a =
     [(''id'', PInt (a_id a)), (''room_id'', PInt (a_room_id a)), (''name'', PStr (a_name a)),
      (''asset_type'', PStr (a_asset_type a)), (''serial_number'', PStr (a_serial_number a)),
      (''purchase_date'', PStr (a_purchase_date a)), (''condition'', PStr (a_condition a)),
      (''last_inspected'', PStr (a_last_inspected a)), (''notes'', PStr (a_notes a))]"

record Export =
  exp_buildings :: "pydict list"
  exp_rooms :: "pydict list"
  exp_assets :: "pydict list"
  exported_at :: string

definition export_data :: "store \<Rightarrow> string \<Rightarrow> Export" where
  "export_data s now =
     \<lparr>exp_buildings = map asdict_Building (map Building_of_row (tbl_buildings s)),
      exp_rooms = map asdict_Room (map Room_of_row (tbl_rooms s)),
      exp_assets = map asdict_Asset (map Asset_of_row (tbl_assets s)),
      exported_at = now\<rparr>"

subsection \<open>The invariant of the store\<close>

text \<open>What the schema and SQLite maintain: in every table the ids are positive and the
  rows are in strictly increasing id order; building names are pairwise different.\<close>

definition wf_ids :: "int list \<Rightarrow> bool" where
  "wf_ids ids \<longleftrightarrow> sorted_wrt (<) ids \<and> (\<forall>i \<in> set ids. 0 < i)"

definition wf_store :: "store \<Rightarrow> bool" where
  "wf_store s \<longleftrightarrow>
     wf_ids (map bcol_id (tbl_buildings s)) \<and>
     wf_ids (map rcol_id (tbl_rooms s)) \<and>
     wf_ids (map acol_id (tbl_assets s)) \<and>
     distinct (map bcol_name (tbl_buildings s))"

subsection \<open>Scenarios\<close>

text \<open>A sequence of registrations, each applied to the store the one before it left; the
  arguments of each call are given as a tuple, in the order of the method's parameters
  after \<open>now\<close>.\<close>

definition register_buildings ::
  "store \<Rightarrow> (string \<times> string \<times> string \<times> int \<times> pynum \<times> string) list \<Rightarrow> store" where
  "register_buildings s calls =
     fold (\<lambda>(now, name, address, floors, sqft, building_type) s'.
             snd (add_building s' now name address floors sqft building_type)) calls s"

definition register_rooms ::
  "store \<Rightarrow> (string \<times> string \<times> string \<times> int \<times> int \<times> string) list \<Rightarrow> store" where
  "register_rooms s calls =
     fold (\<lambda>(now, building_name, room_name, floor', capacity, room_type) s'.
             snd (add_room s' now building_name room_name floor' capacity room_type)) calls s"

definition register_assets ::
  "store \<Rightarrow> (string \<times> int \<times> string \<times> string \<times> string \<times> string \<times> string \<times> string) list
     \<Rightarrow> store" where
  "register_assets s calls =
     fold (\<lambda>(now, room_id, name, asset_type, serial_number, purchase_date, condition, notes) s'.
             snd (add_asset s' now room_id name asset_type serial_number purchase_date
                    condition notes)) calls s"

text \<open>The calls whose integers can all be bound.\<close>

definition building_call_ok ::
  "string \<times> string \<times> string \<times> int \<times> pynum \<times> string \<Rightarrow> bool" where
  "building_call_ok =
     (\<lambda>(now, name, address, floors, sqft, building_type).
        sqlite_int floors \<and> bindable_num sqft)"

definition room_call_ok ::
  "string \<times> string \<times> string \<times> int \<times> int \<times> string \<Rightarrow> bool" where
  "room_call_ok =
     (\<lambda>(now, building_name, room_name, floor', capacity, room_type).
        sqlite_int floor' \<and> sqlite_int capacity)"

definition asset_call_ok ::
  "string \<times> int \<times> string \<times> string \<times> string \<times> string \<times> string \<times> string \<Rightarrow> bool" where
  "asset_call_ok =
     (\<lambda>(now, room_id, name, asset_type, serial_number, purchase_date, condition, notes).
        sqlite_int room_id)"

text \<open>One export holds every row of another.\<close>

definition export_subset :: "Export \<Rightarrow> Export \<Rightarrow> bool" where
  "export_subset e e' \<longleftrightarrow>
     set (exp_buildings e) \<subseteq> set (exp_buildings e') \<and>
     set (exp_rooms e) \<subseteq> set (exp_rooms e') \<and>
     set (exp_assets e) \<subseteq> set (exp_assets e')"

text \<open>A populated store: two buildings, the second one inactive; two rooms, the second one
  not available; two assets, the second one in a room that does not exist.\<close>

definition hq_store :: store where
  "hq_store =
     \<lparr>db_path = ''facilities-management.db'',
      tbl_buildings =
        [(1, ''HQ'', ''1 Main St'', 5, PyFloat 12000, ''office'', ''2024-01-01T09:00:00'', 1),
         (2, ''Annex'', [], 1, PyFloat 0, ''warehouse'', ''2024-01-02T09:00:00'', 0)],
      tbl_rooms =
        [(1, 1, ''Room 101'', 1, 20, ''office'', ''available'', ''2024-01-03T09:00:00''),
         (2, 2, ''Dock'', 1, 10, ''storage'', ''occupied'', ''2024-01-04T09:00:00'')],
      tbl_assets =
        [(1, 1, ''Projector'', ''equipment'', ''SN-1'', [], ''fair'',
          ''2024-01-05T09:00:00'', []),
         (2, 7, ''Chair'', ''furniture'', [], [], ''good'', ''2024-01-06T09:00:00'', [])],
      seq_buildings = 2, seq_rooms = 2, seq_assets = 2\<rparr>"

text \<open>The calls of a scenario that starts from the empty store: two buildings, three
  rooms under them, five assets, two of which name rooms that do not exist.\<close>

definition demo_building_calls ::
  "(string \<times> string \<times> string \<times> int \<times> pynum \<times> string) list" where
  "demo_building_calls =
     [(''2024-03-01T08:00:00'', ''HQ'', ''1 Main St'', 5, PyFloat 12000, ''office''),
      (''2024-03-01T08:05:00'', ''Annex'', [], 1, PyInt 0, ''warehouse'')]"

definition demo_room_calls ::
  "(string \<times> string \<times> string \<times> int \<times> int \<times> string) list" where
  "demo_room_calls =
     [(''2024-03-01T09:00:00'', ''HQ'', ''Room 101'', 1, 20, ''office''),
      (''2024-03-01T09:05:00'', ''HQ'', ''Room 102'', 1, 8, ''office''),
      (''2024-03-01T09:10:00'', ''Annex'', ''Dock'', 1, 10, ''storage'')]"

definition demo_asset_calls ::
  "(string \<times> int \<times> string \<times> string \<times> string \<times> string \<times> string \<times> string) list" where
  "demo_asset_calls =
     [(''2024-03-01T10:00:00'', 1, ''Projector'', ''equipment'', ''SN-1'', [], ''fair'', []),
      (''2024-03-01T10:05:00'', 1, ''Screen'', ''equipment'', [], [], ''good'', []),
      (''2024-03-01T10:10:00'', 2, ''Table'', ''furniture'', [], [], ''good'', []),
      (''2024-03-01T10:15:00'', 3, ''Forklift'', ''vehicle'', ''F-9'', [], ''poor'', []),
      (''2024-03-01T10:20:00'', 42, ''Chair'', ''furniture'', [], [], ''excellent'', [])]"

section \<open>Properties\<close>

subsection \<open>Row identifiers\<close>

lemma next_rowid_gt:
  assumes "i \<in> set ids"
  shows "i < next_rowid sq ids"
proof -
  from assms have "ids \<noteq> []" by auto
  moreover from assms have "i \<le> Max (set ids)" by simp
  ultimately show ?thesis by (simp add: next_rowid_def)
qed

lemma next_rowid_pos:
  assumes "wf_ids ids"
  shows "0 < next_rowid sq ids"
proof (cases "ids = []")
  case True
  then show ?thesis by (simp add: next_rowid_def)
next
  case False
  then have "Max (set ids) \<in> set ids" by (intro Max_in) auto
  with assms have "0 < Max (set ids)" by (auto simp: wf_ids_def)
  with False show ?thesis by (simp add: next_rowid_def)
qed

lemma wf_ids_snoc: "wf_ids ids \<Longrightarrow> wf_ids (ids @ [next_rowid sq ids])"
  using next_rowid_pos [of ids sq] next_rowid_gt [of _ ids sq]
  by (auto simp: wf_ids_def sorted_wrt_append)

lemma wf_empty_store: "wf_store (empty_store p)"
  by (simp add: wf_store_def wf_ids_def empty_store_def)

lemma select_building_id_None:
  "select_building_id s n = None \<longleftrightarrow> n \<notin> set (map bcol_name (tbl_buildings s))"
proof (cases "filter (\<lambda>r. bcol_name r = n) (tbl_buildings s)")
  case Nil
  then have "n \<notin> set (map bcol_name (tbl_buildings s))"
    by (auto simp: filter_empty_conv)
  with Nil show ?thesis by (simp add: select_building_id_def)
next
  case (Cons r rs)
  then have "r \<in> set (filter (\<lambda>r. bcol_name r = n) (tbl_buildings s))" by simp
  then have "n \<in> set (map bcol_name (tbl_buildings s))" by auto
  with Cons show ?thesis by (simp add: select_building_id_def)
qed

subsection \<open>Registering a room under an unknown building\<close>

text \<open>
  Claim C1. Whatever the store holds, \<^verbatim>\<open>add_room\<close> with a building name that no row of
  \<^verbatim>\<open>buildings\<close> carries raises \<^verbatim>\<open>ValueError\<close> with the message
  \<^verbatim>\<open>Building '<name>' not found\<close>, and the store it leaves is the store it was given: no
  row is added to \<^verbatim>\<open>rooms\<close>, nor to any other table.
\<close>

theorem add_room_unknown_building:
  assumes "building_name \<notin> set (map bcol_name (tbl_buildings s))"
  shows "add_room s now building_name room_name floor' capacity room_type =
           (Inl (ValueError (''Building '' @ [CHR 0x27] @ building_name @ [CHR 0x27]
                             @ '' not found'')), s)"
proof -
  from assms have "select_building_id s building_name = None"
    by (simp add: select_building_id_None)
  then show ?thesis
    by (simp add: add_room_def not_found_message_def)
qed

theorem add_room_unknown_building_witness:
  "''Lab'' \<notin> set (map bcol_name (tbl_buildings hq_store)) \<and>
   add_room hq_store ''2024-02-01T10:00:00'' ''Lab'' ''Bench 1'' 1 4 ''lab'' =
     (Inl (ValueError (''Building '' @ [CHR 0x27] @ ''Lab'' @ [CHR 0x27] @ '' not found'')),
      hq_store)"
  using add_room_unknown_building
    [of "''Lab''" hq_store "''2024-02-01T10:00:00''" "''Bench 1''" 1 4 "''lab''"]
  by (simp add: hq_store_def)

subsection \<open>What a registration does to the store\<close>

lemma add_building_overflow:
  assumes "\<not> (sqlite_int floors \<and> bindable_num sqft)"
  shows "add_building s now name address floors sqft building_type = (Inl overflow_error, s)"
  using assms by (simp add: add_building_def)

lemma add_building_taken:
  assumes "sqlite_int floors" and "bindable_num sqft"
    and "name \<in> set (map bcol_name (tbl_buildings s))"
  shows "add_building s now name address floors sqft building_type =
           (Inl (IntegrityError ''UNIQUE constraint failed: buildings.name''), s)"
  using assms by (simp add: add_building_def)

lemma add_building_fresh:
  assumes "sqlite_int floors" and "bindable_num sqft"
    and "name \<notin> set (map bcol_name (tbl_buildings s))"
  shows "add_building s now name address floors sqft building_type =
           (Inr \<lparr>b_id = next_rowid (seq_buildings s) (map bcol_id (tbl_buildings s)),
                  b_name = name, b_address = address, b_floors = floors, b_total_sqft = sqft,
                  b_building_type = building_type, b_created_at = now, b_active = 1\<rparr>,
            s\<lparr>tbl_buildings := tbl_buildings s @
                 [(next_rowid (seq_buildings s) (map bcol_id (tbl_buildings s)),
                   name, address, floors, sqlite_real sqft, building_type, now, 1)],
              seq_buildings := next_rowid (seq_buildings s) (map bcol_id (tbl_buildings s))\<rparr>)"
  using assms by (simp add: add_building_def Let_def)

lemma add_room_no_building:
  assumes "select_building_id s building_name = None"
  shows "add_room s now building_name room_name floor' capacity room_type =
           (Inl (ValueError (not_found_message building_name)), s)"
  using assms by (simp add: add_room_def)

lemma add_room_overflow:
  assumes "select_building_id s building_name = Some b"
    and "\<not> (sqlite_int floor' \<and> sqlite_int capacity)"
  shows "add_room s now building_name room_name floor' capacity room_type =
           (Inl overflow_error, s)"
  using assms by (simp add: add_room_def)

lemma add_room_known:
  assumes "select_building_id s building_name = Some b"
    and "sqlite_int floor'" and "sqlite_int capacity"
  shows "add_room s now building_name room_name floor' capacity room_type =
           (Inr (Room_of_row (next_rowid (seq_rooms s) (map rcol_id (tbl_rooms s)),
                   b, room_name, floor', capacity, room_type, ''available'', now)),
            s\<lparr>tbl_rooms := tbl_rooms s @
                 [(next_rowid (seq_rooms s) (map rcol_id (tbl_rooms s)),
                   b, room_name, floor', capacity, room_type, ''available'', now)],
              seq_rooms := next_rowid (seq_rooms s) (map rcol_id (tbl_rooms s))\<rparr>)"
  using assms by (simp add: add_room_def Let_def)

lemma add_asset_overflow:
  assumes "\<not> sqlite_int room_id"
  shows "add_asset s now room_id name asset_type serial_number purchase_date condition notes =
           (Inl overflow_error, s)"
  using assms by (simp add: add_asset_def)

lemma add_asset_row:
  assumes "sqlite_int room_id"
  shows "add_asset s now room_id name asset_type serial_number purchase_date condition notes =
     (Inr (Asset_of_row (next_rowid (seq_assets s) (map acol_id (tbl_assets s)),
             room_id, name, asset_type, serial_number, purchase_date, condition, now, notes)),
      s\<lparr>tbl_assets := tbl_assets s @
           [(next_rowid (seq_assets s) (map acol_id (tbl_assets s)),
             room_id, name, asset_type, serial_number, purchase_date, condition, now, notes)],
        seq_assets := next_rowid (seq_assets s) (map acol_id (tbl_assets s))\<rparr>)"
  using assms by (simp add: add_asset_def Let_def)

lemma wf_add_building:
  assumes "wf_store s"
  shows "wf_store (snd (add_building s now name address floors sqft building_type))"
proof (cases "sqlite_int floors \<and> bindable_num sqft")
  case False
  with assms show ?thesis by (simp add: add_building_overflow)
next
  case ok: True
  show ?thesis
  proof (cases "name \<in> set (map bcol_name (tbl_buildings s))")
    case True
    with assms ok show ?thesis by (simp add: add_building_taken)
  next
    case False
    from assms have "wf_ids (map bcol_id (tbl_buildings s))" by (simp add: wf_store_def)
    then have "wf_ids (map bcol_id (tbl_buildings s) @
                 [next_rowid (seq_buildings s) (map bcol_id (tbl_buildings s))])"
      by (rule wf_ids_snoc)
    with assms ok False show ?thesis
      by (simp add: add_building_fresh wf_store_def)
  qed
qed

lemma wf_add_room:
  assumes "wf_store s"
  shows "wf_store (snd (add_room s now building_name room_name floor' capacity room_type))"
proof (cases "select_building_id s building_name")
  case None
  with assms show ?thesis by (simp add: add_room_no_building)
next
  case (Some b)
  show ?thesis
  proof (cases "sqlite_int floor' \<and> sqlite_int capacity")
    case False
    with assms Some show ?thesis by (simp add: add_room_overflow)
  next
    case True
    from assms have "wf_ids (map rcol_id (tbl_rooms s))" by (simp add: wf_store_def)
    then have "wf_ids (map rcol_id (tbl_rooms s) @
                 [next_rowid (seq_rooms s) (map rcol_id (tbl_rooms s))])"
      by (rule wf_ids_snoc)
    with assms Some True show ?thesis
      by (simp add: add_room_known wf_store_def)
  qed
qed

lemma wf_add_asset:
  assumes "wf_store s"
  shows "wf_store (snd (add_asset s now room_id name asset_type serial_number purchase_date
                          condition notes))"
proof (cases "sqlite_int room_id")
  case False
  with assms show ?thesis by (simp add: add_asset_overflow)
next
  case True
  from assms have "wf_ids (map acol_id (tbl_assets s))" by (simp add: wf_store_def)
  then have "wf_ids (map acol_id (tbl_assets s) @
               [next_rowid (seq_assets s) (map acol_id (tbl_assets s))])"
    by (rule wf_ids_snoc)
  with assms True show ?thesis
    by (simp add: add_asset_row wf_store_def)
qed

subsection \<open>Integers and numbers that can be stored\<close>

lemma sqlite_int_small:
  assumes "\<bar>i\<bar> \<le> 2 ^ 53"
  shows "sqlite_int i"
  using assms unfolding sqlite_int_def by (simp, linarith)

lemma int_to_double_small:
  assumes "\<bar>i\<bar> \<le> 2 ^ 53"
  shows "int_to_double i = real_of_int i"
  using assms by (simp add: int_to_double_def)

lemma storable_num_small:
  assumes "\<bar>i\<bar> \<le> 2 ^ 53"
  shows "storable_num (PyInt i)"
  using assms by (simp add: sqlite_int_small int_to_double_small)

lemma storable_bindable:
  assumes "storable_num v"
  shows "bindable_num v"
  using assms by (cases v) simp_all

lemma storable_py_eq:
  assumes "storable_num v"
  shows "py_eq (sqlite_real v) v"
  using assms by (cases v) simp_all

lemma sqlite_real_float:
  "sqlite_real (PyFloat x) = PyFloat x"
  by simp

text \<open>What the model does at the edges: an integer above \<open>2 ^ 53\<close> that no double
  represents is rounded, not-a-number comes back as \<^verbatim>\<open>None\<close>, and an integer that does not
  fit is refused before the \<^verbatim>\<open>UNIQUE\<close> constraint is looked at.\<close>

lemma bitlen_above_2_53: "bitlen 9007199254740993 = 54"
  by code_simp

lemma int_to_double_rounds: "int_to_double 9007199254740993 = 9007199254740992"
  by (simp add: int_to_double_def bitlen_above_2_53 Let_def)

lemma big_int_not_storable: "\<not> storable_num (PyInt 9007199254740993)"
  by (simp add: int_to_double_rounds)

lemma nan_not_storable: "\<not> storable_num PyNaN \<and> sqlite_real PyNaN = PyNone"
  by simp

lemma add_building_overflow_before_unique:
  "add_building hq_store ''2024-02-01T10:00:00'' ''Annex'' ''2 Side St'' 9223372036854775808
     (PyFloat 500) ''office'' = (Inl overflow_error, hq_store)"
  by (simp add: add_building_def sqlite_int_def)

lemma wf_hq_store: "wf_store hq_store"
  by (simp add: wf_store_def wf_ids_def hq_store_def)

lemma filter_distinct_key:
  assumes "distinct (map f xs)" and "x \<in> set xs"
  shows "filter (\<lambda>y. f y = f x) xs = [x]"
  using assms
proof (induction xs)
  case Nil
  then show ?case by simp
next
  case (Cons a xs)
  show ?case
  proof (cases "a = x")
    case True
    with Cons.prems have "\<forall>y \<in> set xs. f y \<noteq> f x" by (metis distinct.simps(2) image_eqI list.simps(9) set_map)
    then have "filter (\<lambda>y. f y = f x) xs = []" by (simp add: filter_empty_conv)
    with True show ?thesis by simp
  next
    case False
    with Cons.prems have "x \<in> set xs" by simp
    moreover from this Cons.prems have "f a \<noteq> f x" by (metis distinct.simps(2) image_eqI list.simps(9) set_map)
    ultimately show ?thesis using Cons by simp
  qed
qed

subsection \<open>Registering a building under a name already taken\<close>

text \<open>
  Claim C2. In a store that already holds a building named \<open>name\<close>, \<^verbatim>\<open>add_building\<close>
  with that name, called with arguments that can be bound (a number of floors within the
  signed 64-bit range, and an area that is not an integer outside it), fails with the
  constraint violation \<^verbatim>\<open>sqlite3.IntegrityError\<close> and leaves the store as it was, so that
  exactly one row of \<^verbatim>\<open>buildings\<close> carries the name afterwards. Names stay pairwise
  different over all rows, whatever their \<^verbatim>\<open>active\<close> column holds, after any call of
  \<^verbatim>\<open>add_building\<close>, whatever its arguments.
\<close>

theorem add_building_duplicate_name:
  assumes "wf_store s" and "name \<in> set (map bcol_name (tbl_buildings s))"
    and "sqlite_int floors" and "bindable_num sqft"
  shows "add_building s now name address floors sqft building_type =
           (Inl (IntegrityError ''UNIQUE constraint failed: buildings.name''), s) \<and>
         length (filter (\<lambda>r. bcol_name r = name)
           (tbl_buildings (snd (add_building s now name address floors sqft building_type))))
           = 1 \<and>
         distinct (map bcol_name
           (tbl_buildings (snd (add_building s now2 name2 address2 floors2 sqft2 type2))))"
proof -
  have dup: "add_building s now name address floors sqft building_type =
           (Inl (IntegrityError ''UNIQUE constraint failed: buildings.name''), s)"
    using assms(3,4,2) by (rule add_building_taken)
  from assms(2) obtain r where r: "r \<in> set (tbl_buildings s)" "bcol_name r = name"
    by auto
  from assms(1) have "distinct (map bcol_name (tbl_buildings s))"
    by (simp add: wf_store_def)
  from this r(1) have "filter (\<lambda>y. bcol_name y = bcol_name r) (tbl_buildings s) = [r]"
    by (rule filter_distinct_key)
  with r(2) dup have one: "length (filter (\<lambda>r. bcol_name r = name)
           (tbl_buildings (snd (add_building s now name address floors sqft building_type))))
           = 1"
    by simp
  from assms(1) have "wf_store (snd (add_building s now2 name2 address2 floors2 sqft2 type2))"
    by (rule wf_add_building)
  then have "distinct (map bcol_name
           (tbl_buildings (snd (add_building s now2 name2 address2 floors2 sqft2 type2))))"
    by (simp add: wf_store_def)
  with dup one show ?thesis by simp
qed

theorem add_building_duplicate_name_witness:
  "wf_store hq_store \<and> ''Annex'' \<in> set (map bcol_name (tbl_buildings hq_store)) \<and>
   sqlite_int 3 \<and> bindable_num (PyFloat 500) \<and>
   add_building hq_store ''2024-02-01T10:00:00'' ''Annex'' ''2 Side St'' 3 (PyFloat 500)
       ''office'' =
     (Inl (IntegrityError ''UNIQUE constraint failed: buildings.name''), hq_store) \<and>
   length (filter (\<lambda>r. bcol_name r = ''Annex'')
     (tbl_buildings (snd (add_building hq_store ''2024-02-01T10:00:00'' ''Annex''
        ''2 Side St'' 3 (PyFloat 500) ''office'')))) = 1"
proof -
  have w: "wf_store hq_store"
    by (simp add: wf_store_def wf_ids_def hq_store_def)
  have m: "''Annex'' \<in> set (map bcol_name (tbl_buildings hq_store))"
    by (simp add: hq_store_def)
  have i: "sqlite_int 3" by (simp add: sqlite_int_def)
  have f: "bindable_num (PyFloat 500)" by simp
  from add_building_duplicate_name [OF w m i f] w m i f show ?thesis by blast
qed

subsection \<open>Listing buildings\<close>

lemma Building_of_row_cols [simp]:
  "b_id (Building_of_row r) = bcol_id r"
  "b_name (Building_of_row r) = bcol_name r"
  "b_active (Building_of_row r) = bcol_active r"
  by (cases r rule: Building_of_row.cases, simp)+

lemma Room_of_row_cols [simp]:
  "r_id (Room_of_row r) = rcol_id r"
  "r_building_id (Room_of_row r) = rcol_building_id r"
  "r_status (Room_of_row r) = rcol_status r"
  by (cases r rule: Room_of_row.cases, simp)+

lemma Asset_of_row_cols [simp]:
  "a_id (Asset_of_row r) = acol_id r"
  "a_room_id (Asset_of_row r) = acol_room_id r"
  by (cases r rule: Asset_of_row.cases, simp)+

lemma list_buildings_sorted:
  assumes "wf_store s"
  shows "sorted_wrt (<) (map b_id (list_buildings s))"
proof -
  from assms have "sorted_wrt (<) (map bcol_id (tbl_buildings s))"
    by (simp add: wf_store_def wf_ids_def)
  then have "sorted_wrt (\<lambda>x y. bcol_id x < bcol_id y) (tbl_buildings s)"
    by (simp add: sorted_wrt_map)
  then have "sorted_wrt (\<lambda>x y. bcol_id x < bcol_id y)
               (filter (\<lambda>r. bcol_active r = 1) (tbl_buildings s))"
    by (rule sorted_wrt_filter)
  then show ?thesis
    by (simp add: list_buildings_def sorted_wrt_map comp_def)
qed

lemma list_buildings_add_building:
  assumes "name \<notin> set (map bcol_name (tbl_buildings s))"
    and "sqlite_int floors" and "bindable_num sqft"
  shows "list_buildings (snd (add_building s now name address floors sqft building_type)) =
           list_buildings s @
             [Building_of_row (next_rowid (seq_buildings s) (map bcol_id (tbl_buildings s)),
                name, address, floors, sqlite_real sqft, building_type, now, 1)]"
  using assms by (simp add: add_building_fresh list_buildings_def)

text \<open>
  Claim C7. \<^verbatim>\<open>list_buildings\<close> returns the buildings whose \<^verbatim>\<open>active\<close> column is 1 (the
  value that stands for true), all of them and nothing else, one record per such row, in
  increasing order of their identifiers. That is the order of insertion: a building
  registered next, with arguments that can be bound, gets an identifier above every
  identifier listed, and is listed last.
\<close>

theorem list_buildings_active_in_id_order:
  assumes "wf_store s"
  shows "set (list_buildings s) =
           Building_of_row ` {r \<in> set (tbl_buildings s). bcol_active r = 1} \<and>
         length (list_buildings s) =
           length (filter (\<lambda>r. bcol_active r = 1) (tbl_buildings s)) \<and>
         sorted_wrt (<) (map b_id (list_buildings s)) \<and>
         (\<forall>b \<in> set (list_buildings s).
            b_id b < next_rowid (seq_buildings s) (map bcol_id (tbl_buildings s))) \<and>
         (name \<notin> set (map bcol_name (tbl_buildings s)) \<longrightarrow>
          sqlite_int floors \<longrightarrow> bindable_num sqft \<longrightarrow>
            list_buildings (snd (add_building s now name address floors sqft building_type)) =
              list_buildings s @
                [Building_of_row (next_rowid (seq_buildings s) (map bcol_id (tbl_buildings s)),
                   name, address, floors, sqlite_real sqft, building_type, now, 1)])"
proof -
  have a: "set (list_buildings s) =
           Building_of_row ` {r \<in> set (tbl_buildings s). bcol_active r = 1}"
    by (simp add: list_buildings_def)
  have b: "length (list_buildings s) =
           length (filter (\<lambda>r. bcol_active r = 1) (tbl_buildings s))"
    by (simp add: list_buildings_def)
  have c: "sorted_wrt (<) (map b_id (list_buildings s))"
    using assms by (rule list_buildings_sorted)
  have d: "\<forall>b \<in> set (list_buildings s).
            b_id b < next_rowid (seq_buildings s) (map bcol_id (tbl_buildings s))"
  proof
    fix b assume "b \<in> set (list_buildings s)"
    then obtain r where "r \<in> set (tbl_buildings s)" "b = Building_of_row r"
      by (auto simp: list_buildings_def)
    then have "b_id b \<in> set (map bcol_id (tbl_buildings s))" by simp
    then show "b_id b < next_rowid (seq_buildings s) (map bcol_id (tbl_buildings s))"
      by (rule next_rowid_gt)
  qed
  have e: "name \<notin> set (map bcol_name (tbl_buildings s)) \<longrightarrow>
          sqlite_int floors \<longrightarrow> bindable_num sqft \<longrightarrow>
            list_buildings (snd (add_building s now name address floors sqft building_type)) =
              list_buildings s @
                [Building_of_row (next_rowid (seq_buildings s) (map bcol_id (tbl_buildings s)),
                   name, address, floors, sqlite_real sqft, building_type, now, 1)]"
    by (intro impI) (rule list_buildings_add_building)
  show ?thesis by (intro conjI) (rule a b c d e)+
qed

theorem list_buildings_active_in_id_order_witness:
  "wf_store hq_store \<and>
   list_buildings hq_store =
     [\<lparr>b_id = 1, b_name = ''HQ'', b_address = ''1 Main St'', b_floors = 5,
       b_total_sqft = PyFloat 12000, b_building_type = ''office'',
       b_created_at = ''2024-01-01T09:00:00'', b_active = 1\<rparr>] \<and>
   sorted_wrt (<) (map b_id (list_buildings hq_store)) \<and>
   ''Lab'' \<notin> set (map bcol_name (tbl_buildings hq_store)) \<and>
   sqlite_int 2 \<and> bindable_num (PyFloat 800) \<and>
   map b_id (list_buildings (snd (add_building hq_store ''2024-02-01T10:00:00'' ''Lab''
     ''3 Back St'' 2 (PyFloat 800) ''lab''))) = [1, 3]"
proof -
  have l: "list_buildings hq_store =
     [\<lparr>b_id = 1, b_name = ''HQ'', b_address = ''1 Main St'', b_floors = 5,
       b_total_sqft = PyFloat 12000, b_building_type = ''office'',
       b_created_at = ''2024-01-01T09:00:00'', b_active = 1\<rparr>]"
    by (simp add: list_buildings_def hq_store_def)
  have n: "''Lab'' \<notin> set (map bcol_name (tbl_buildings hq_store))"
    by (simp add: hq_store_def)
  have f: "sqlite_int 2" by (simp add: sqlite_int_def)
  have q: "bindable_num (PyFloat 800)" by simp
  have i: "next_rowid (seq_buildings hq_store) (map bcol_id (tbl_buildings hq_store)) = 3"
    by (simp add: next_rowid_def hq_store_def)
  note th = list_buildings_active_in_id_order [OF wf_hq_store,
      where name = "''Lab''" and now = "''2024-02-01T10:00:00''" and address = "''3 Back St''"
        and floors = 2 and sqft = "PyFloat 800" and building_type = "''lab''"]
  note srt = th [THEN conjunct2, THEN conjunct2, THEN conjunct1]
  note app = th [THEN conjunct2, THEN conjunct2, THEN conjunct2, THEN conjunct2,
      THEN mp, OF n, THEN mp, OF f, THEN mp, OF q]
  from app l i
  have "map b_id (list_buildings (snd (add_building hq_store ''2024-02-01T10:00:00'' ''Lab''
     ''3 Back St'' 2 (PyFloat 800) ''lab''))) = [1, 3]"
    by simp
  with wf_hq_store l srt n f q show ?thesis by (intro conjI)
qed

subsection \<open>Registering a building, then listing\<close>

text \<open>
  Claim C8. \<^verbatim>\<open>add_building\<close> with a name that no building carries, a number of floors
  within the signed 64-bit range and an area that the \<^verbatim>\<open>REAL\<close> column keeps in value (a
  float that is a number, or an integer that a double represents) returns a record with
  every field set: the arguments as given, the creation timestamp read at the call, an
  identifier greater than zero and \<^verbatim>\<open>active\<close> equal to 1. A \<^verbatim>\<open>list_buildings\<close> that follows
  returns what it returned before and then that record, with the area as the column
  gives it back, which Python's \<^verbatim>\<open>==\<close> finds equal to the area passed, and with every
  other field unchanged; it returns no other record with that identifier, and after a
  registration into a store without buildings it returns that record alone.
\<close>

theorem add_building_then_list:
  assumes "wf_store s" and "name \<notin> set (map bcol_name (tbl_buildings s))"
    and "sqlite_int floors" and "storable_num sqft"
  shows "\<exists>b s'. add_building s now name address floors sqft building_type = (Inr b, s') \<and>
           b = \<lparr>b_id = next_rowid (seq_buildings s) (map bcol_id (tbl_buildings s)),
                b_name = name, b_address = address, b_floors = floors, b_total_sqft = sqft,
                b_building_type = building_type, b_created_at = now, b_active = 1\<rparr> \<and>
           0 < b_id b \<and>
           list_buildings s' = list_buildings s @ [b\<lparr>b_total_sqft := sqlite_real sqft\<rparr>] \<and>
           py_eq (sqlite_real sqft) (b_total_sqft b) \<and>
           filter (\<lambda>x. b_id x = b_id b) (list_buildings s') =
             [b\<lparr>b_total_sqft := sqlite_real sqft\<rparr>] \<and>
           (tbl_buildings s = [] \<longrightarrow>
              list_buildings s' = [b\<lparr>b_total_sqft := sqlite_real sqft\<rparr>])"
proof -
  define i where "i = next_rowid (seq_buildings s) (map bcol_id (tbl_buildings s))"
  define b where "b = \<lparr>b_id = i, b_name = name, b_address = address, b_floors = floors,
                b_total_sqft = sqft, b_building_type = building_type, b_created_at = now,
                b_active = 1\<rparr>"
  define s' where "s' = snd (add_building s now name address floors sqft building_type)"
  from assms(4) have bind: "bindable_num sqft" by (rule storable_bindable)
  have r: "add_building s now name address floors sqft building_type = (Inr b, s')"
    using assms(2,3) bind by (simp add: add_building_fresh b_def i_def s'_def)
  have f: "b = \<lparr>b_id = i, b_name = name, b_address = address, b_floors = floors,
                b_total_sqft = sqft, b_building_type = building_type, b_created_at = now,
                b_active = 1\<rparr>"
    by (simp add: b_def)
  have row: "Building_of_row (i, name, address, floors, sqlite_real sqft, building_type, now, 1)
               = b\<lparr>b_total_sqft := sqlite_real sqft\<rparr>"
    by (simp add: b_def)
  from assms(1) have "wf_ids (map bcol_id (tbl_buildings s))" by (simp add: wf_store_def)
  then have "0 < i" unfolding i_def by (rule next_rowid_pos)
  then have p: "0 < b_id b" by (simp add: b_def)
  have l: "list_buildings s' = list_buildings s @ [b\<lparr>b_total_sqft := sqlite_real sqft\<rparr>]"
    using list_buildings_add_building [OF assms(2,3) bind, of now address building_type]
    unfolding s'_def i_def [symmetric] row .
  from assms(4) have q: "py_eq (sqlite_real sqft) (b_total_sqft b)"
    by (simp add: b_def storable_py_eq)
  have "\<forall>x \<in> set (list_buildings s). b_id x \<noteq> b_id b"
  proof
    fix x assume "x \<in> set (list_buildings s)"
    then obtain r where "r \<in> set (tbl_buildings s)" "x = Building_of_row r"
      by (auto simp: list_buildings_def)
    then have "b_id x \<in> set (map bcol_id (tbl_buildings s))" by simp
    then have "b_id x < i" unfolding i_def by (rule next_rowid_gt)
    then show "b_id x \<noteq> b_id b" by (simp add: b_def)
  qed
  then have "filter (\<lambda>x. b_id x = b_id b) (list_buildings s) = []"
    by (simp add: filter_empty_conv)
  with l have u: "filter (\<lambda>x. b_id x = b_id b) (list_buildings s') =
      [b\<lparr>b_total_sqft := sqlite_real sqft\<rparr>]"
    by simp
  have e: "tbl_buildings s = [] \<longrightarrow>
      list_buildings s' = [b\<lparr>b_total_sqft := sqlite_real sqft\<rparr>]"
    using l by (simp add: list_buildings_def)
  show ?thesis by (intro exI conjI) (rule r f [unfolded i_def] p l q u e)+
qed

theorem add_building_then_list_witness:
  "wf_store hq_store \<and>
   ''Lab'' \<notin> set (map bcol_name (tbl_buildings hq_store)) \<and>
   sqlite_int 2 \<and> storable_num (PyInt 800) \<and>
   (\<exists>s'. add_building hq_store ''2024-02-01T10:00:00'' ''Lab'' ''3 Back St'' 2 (PyInt 800)
            ''lab'' =
          (Inr \<lparr>b_id = 3, b_name = ''Lab'', b_address = ''3 Back St'', b_floors = 2,
                b_total_sqft = PyInt 800, b_building_type = ''lab'',
                b_created_at = ''2024-02-01T10:00:00'', b_active = 1\<rparr>, s') \<and>
          list_buildings s' =
            [\<lparr>b_id = 1, b_name = ''HQ'', b_address = ''1 Main St'', b_floors = 5,
              b_total_sqft = PyFloat 12000, b_building_type = ''office'',
              b_created_at = ''2024-01-01T09:00:00'', b_active = 1\<rparr>,
             \<lparr>b_id = 3, b_name = ''Lab'', b_address = ''3 Back St'', b_floors = 2,
              b_total_sqft = PyFloat 800, b_building_type = ''lab'',
              b_created_at = ''2024-02-01T10:00:00'', b_active = 1\<rparr>]) \<and>
   py_eq (PyFloat 800) (PyInt 800)"
proof -
  have n: "''Lab'' \<notin> set (map bcol_name (tbl_buildings hq_store))"
    by (simp add: hq_store_def)
  have fl: "sqlite_int 2" by (simp add: sqlite_int_def)
  have st: "storable_num (PyInt 800)"
    by (simp add: sqlite_int_def int_to_double_def)
  have cv: "sqlite_real (PyInt 800) = PyFloat 800"
    by (simp add: int_to_double_def)
  have i: "next_rowid (seq_buildings hq_store) (map bcol_id (tbl_buildings hq_store)) = 3"
    by (simp add: next_rowid_def hq_store_def)
  have old: "list_buildings hq_store =
     [\<lparr>b_id = 1, b_name = ''HQ'', b_address = ''1 Main St'', b_floors = 5,
       b_total_sqft = PyFloat 12000, b_building_type = ''office'',
       b_created_at = ''2024-01-01T09:00:00'', b_active = 1\<rparr>]"
    by (simp add: list_buildings_def hq_store_def)
  from add_building_then_list [OF wf_hq_store n fl st,
      of "''2024-02-01T10:00:00''" "''3 Back St''" "''lab''"]
  obtain b s' where
    r: "add_building hq_store ''2024-02-01T10:00:00'' ''Lab'' ''3 Back St'' 2 (PyInt 800)
          ''lab'' = (Inr b, s')" and
    f: "b = \<lparr>b_id = next_rowid (seq_buildings hq_store)
                  (map bcol_id (tbl_buildings hq_store)),
              b_name = ''Lab'', b_address = ''3 Back St'', b_floors = 2,
              b_total_sqft = PyInt 800, b_building_type = ''lab'',
              b_created_at = ''2024-02-01T10:00:00'', b_active = 1\<rparr>" and
    l: "list_buildings s' =
          list_buildings hq_store @ [b\<lparr>b_total_sqft := sqlite_real (PyInt 800)\<rparr>]" and
    q: "py_eq (sqlite_real (PyInt 800)) (b_total_sqft b)"
    by blast
  from f i have f': "b = \<lparr>b_id = 3, b_name = ''Lab'', b_address = ''3 Back St'', b_floors = 2,
              b_total_sqft = PyInt 800, b_building_type = ''lab'',
              b_created_at = ''2024-02-01T10:00:00'', b_active = 1\<rparr>"
    by simp
  from l old cv f' have l': "list_buildings s' =
            [\<lparr>b_id = 1, b_name = ''HQ'', b_address = ''1 Main St'', b_floors = 5,
              b_total_sqft = PyFloat 12000, b_building_type = ''office'',
              b_created_at = ''2024-01-01T09:00:00'', b_active = 1\<rparr>,
             \<lparr>b_id = 3, b_name = ''Lab'', b_address = ''3 Back St'', b_floors = 2,
              b_total_sqft = PyFloat 800, b_building_type = ''lab'',
              b_created_at = ''2024-02-01T10:00:00'', b_active = 1\<rparr>]"
    by simp
  from q cv f' have q': "py_eq (PyFloat 800) (PyInt 800)" by simp
  from r f' l' have ex: "\<exists>s'. add_building hq_store ''2024-02-01T10:00:00'' ''Lab''
            ''3 Back St'' 2 (PyInt 800) ''lab'' =
          (Inr \<lparr>b_id = 3, b_name = ''Lab'', b_address = ''3 Back St'', b_floors = 2,
                b_total_sqft = PyInt 800, b_building_type = ''lab'',
                b_created_at = ''2024-02-01T10:00:00'', b_active = 1\<rparr>, s') \<and>
          list_buildings s' =
            [\<lparr>b_id = 1, b_name = ''HQ'', b_address = ''1 Main St'', b_floors = 5,
              b_total_sqft = PyFloat 12000, b_building_type = ''office'',
              b_created_at = ''2024-01-01T09:00:00'', b_active = 1\<rparr>,
             \<lparr>b_id = 3, b_name = ''Lab'', b_address = ''3 Back St'', b_floors = 2,
              b_total_sqft = PyFloat 800, b_building_type = ''lab'',
              b_created_at = ''2024-02-01T10:00:00'', b_active = 1\<rparr>]"
    by blast
  show ?thesis by (intro conjI) (rule wf_hq_store n fl st ex q')+
qed

subsection \<open>Listing rooms\<close>

lemma select_building_id_Some:
  assumes "wf_store s" and "b \<in> set (tbl_buildings s)"
  shows "select_building_id s (bcol_name b) = Some (bcol_id b)"
proof -
  from assms(1) have "distinct (map bcol_name (tbl_buildings s))"
    by (simp add: wf_store_def)
  from this assms(2)
  have "filter (\<lambda>r. bcol_name r = bcol_name b) (tbl_buildings s) = [b]"
    by (rule filter_distinct_key)
  then show ?thesis by (simp add: select_building_id_def)
qed

lemma list_rooms_all: "list_rooms s None = map Room_of_row (tbl_rooms s)"
  by (simp add: list_rooms_def)

lemma filter_Room_of_row:
  "filter (\<lambda>r. r_building_id r = i) (map Room_of_row rows) =
     map Room_of_row (filter (\<lambda>r. rcol_building_id r = i) rows)"
  by (simp add: filter_map comp_def)

text \<open>
  Claim C5, as the code has it. The filter of \<^verbatim>\<open>list_rooms\<close> is tested for truth, so the
  claim holds for the names that are not empty: such a name that no building carries
  gives the empty list and no error; such a name carried by a building gives the rooms
  whose \<^verbatim>\<open>building_id\<close> is that building's identifier, in the order of the unfiltered
  listing; and without a filter every room of the store is returned.
\<close>

theorem list_rooms_by_building:
  assumes "building_name \<noteq> []"
  shows "(building_name \<notin> set (map bcol_name (tbl_buildings s)) \<longrightarrow>
            list_rooms s (Some building_name) = []) \<and>
         (wf_store s \<longrightarrow> b \<in> set (tbl_buildings s) \<longrightarrow> bcol_name b = building_name \<longrightarrow>
            list_rooms s (Some building_name) =
              filter (\<lambda>r. r_building_id r = bcol_id b) (list_rooms s None)) \<and>
         list_rooms s None = map Room_of_row (tbl_rooms s)"
proof (intro conjI impI)
  assume "building_name \<notin> set (map bcol_name (tbl_buildings s))"
  then have "select_building_id s building_name = None"
    by (simp add: select_building_id_None)
  with assms show "list_rooms s (Some building_name) = []"
    by (simp add: list_rooms_def)
next
  assume w: "wf_store s" and m: "b \<in> set (tbl_buildings s)"
    and n: "bcol_name b = building_name"
  from w m have "select_building_id s (bcol_name b) = Some (bcol_id b)"
    by (rule select_building_id_Some)
  with assms n show "list_rooms s (Some building_name) =
              filter (\<lambda>r. r_building_id r = bcol_id b) (list_rooms s None)"
    by (simp add: list_rooms_def filter_Room_of_row)
next
  show "list_rooms s None = map Room_of_row (tbl_rooms s)"
    by (rule list_rooms_all)
qed

theorem list_rooms_by_building_witness:
  "''Annex'' \<noteq> [] \<and> ''Lab'' \<noteq> [] \<and> wf_store hq_store \<and>
   ''Lab'' \<notin> set (map bcol_name (tbl_buildings hq_store)) \<and>
   list_rooms hq_store (Some ''Lab'') = [] \<and>
   list_rooms hq_store (Some ''Annex'') =
     [\<lparr>r_id = 2, r_building_id = 2, r_name = ''Dock'', r_floor = 1, r_capacity = 10,
       r_room_type = ''storage'', r_status = ''occupied'',
       r_created_at = ''2024-01-04T09:00:00''\<rparr>] \<and>
   length (list_rooms hq_store None) = 2"
proof -
  have a: "''Annex'' \<noteq> []" and l: "''Lab'' \<noteq> []" by simp_all
  have n: "''Lab'' \<notin> set (map bcol_name (tbl_buildings hq_store))"
    by (simp add: hq_store_def)
  have m: "(2, ''Annex'', [], 1, PyFloat 0, ''warehouse'', ''2024-01-02T09:00:00'', 0)
             \<in> set (tbl_buildings hq_store)"
    by (simp add: hq_store_def)
  have all: "list_rooms hq_store None = map Room_of_row (tbl_rooms hq_store)"
    using list_rooms_by_building [OF l, of hq_store] by blast
  have "list_rooms hq_store (Some ''Lab'') = []"
    using list_rooms_by_building [OF l, of hq_store] n by blast
  moreover have "list_rooms hq_store (Some ''Annex'') =
      filter (\<lambda>r. r_building_id r = 2) (list_rooms hq_store None)"
    using list_rooms_by_building [OF a, of hq_store
        "(2, ''Annex'', [], 1, PyFloat 0, ''warehouse'', ''2024-01-02T09:00:00'', 0)"] m wf_hq_store
    by simp
  ultimately show ?thesis using a l n wf_hq_store all
    by (simp add: hq_store_def)
qed

theorem list_rooms_unknown_name_counterexample:
  "[] \<notin> set (map bcol_name (tbl_buildings hq_store)) \<and> list_rooms hq_store (Some []) \<noteq> []"
  by (simp add: list_rooms_def hq_store_def)

text \<open>
  Claim C10. \<^verbatim>\<open>list_rooms\<close> with the empty string as building name returns every room of
  the store, as it does without a filter; in a store that has rooms this is not the empty
  list that a name carried by no building gives.
\<close>

theorem list_rooms_empty_name:
  "list_rooms s (Some []) = map Room_of_row (tbl_rooms s) \<and>
   list_rooms s (Some []) = list_rooms s None \<and>
   (tbl_rooms s \<noteq> [] \<longrightarrow> list_rooms s (Some []) \<noteq> [])"
  by (simp add: list_rooms_def)

theorem list_rooms_empty_name_witness:
  "tbl_rooms hq_store \<noteq> [] \<and> length (list_rooms hq_store (Some [])) = 2 \<and>
   list_rooms hq_store (Some []) \<noteq> []"
proof -
  have r: "tbl_rooms hq_store \<noteq> []" by (simp add: hq_store_def)
  from list_rooms_empty_name [of hq_store] r
  have "list_rooms hq_store (Some []) \<noteq> []"
    and "list_rooms hq_store (Some []) = map Room_of_row (tbl_rooms hq_store)"
    by blast+
  with r show ?thesis by (simp add: hq_store_def)
qed

subsection \<open>Listing assets\<close>

text \<open>
  Claim C6, as the code has it. \<^verbatim>\<open>list_assets\<close> with room id 0 returns what it returns
  without a filter, which is every asset of the store. With a room id other than 0 that
  lies within the signed 64-bit range it returns the assets whose \<^verbatim>\<open>room_id\<close> is that id,
  in the order of the unfiltered listing. (A room id outside that range cannot be bound to
  the query, which raises \<^verbatim>\<open>OverflowError\<close>.)
\<close>

theorem list_assets_by_room_id:
  "list_assets s (Some 0) = list_assets s None \<and>
   list_assets s None = Inr (map Asset_of_row (tbl_assets s)) \<and>
   (room_id \<noteq> 0 \<longrightarrow> sqlite_int room_id \<longrightarrow>
      list_assets s (Some room_id) =
        Inr (filter (\<lambda>a. a_room_id a = room_id) (map Asset_of_row (tbl_assets s))))"
  by (simp add: list_assets_def filter_map comp_def)

theorem list_assets_by_room_id_witness:
  "(7::int) \<noteq> 0 \<and> sqlite_int 7 \<and>
   list_assets hq_store (Some 0) = list_assets hq_store None \<and>
   list_assets hq_store (Some 7) =
     Inr [\<lparr>a_id = 2, a_room_id = 7, a_name = ''Chair'', a_asset_type = ''furniture'',
           a_serial_number = [], a_purchase_date = [], a_condition = ''good'',
           a_last_inspected = ''2024-01-06T09:00:00'', a_notes = []\<rparr>]"
proof -
  have z: "(7::int) \<noteq> 0" by simp
  have i: "sqlite_int 7" by (simp add: sqlite_int_def)
  note th = list_assets_by_room_id [of hq_store 7]
  note same = th [THEN conjunct1]
  note flt = th [THEN conjunct2, THEN conjunct2, THEN mp, OF z, THEN mp, OF i]
  from flt have "list_assets hq_store (Some 7) =
     Inr [\<lparr>a_id = 2, a_room_id = 7, a_name = ''Chair'', a_asset_type = ''furniture'',
           a_serial_number = [], a_purchase_date = [], a_condition = ''good'',
           a_last_inspected = ''2024-01-06T09:00:00'', a_notes = []\<rparr>]"
    by (simp add: hq_store_def)
  with z i same show ?thesis by (intro conjI)
qed

theorem list_assets_out_of_range_counterexample:
  "(9223372036854775808::int) \<noteq> 0 \<and>
   list_assets hq_store (Some 9223372036854775808) =
     Inl (OverflowError ''Python int too large to convert to SQLite INTEGER'')"
  by (simp add: list_assets_def sqlite_int_def overflow_error_def)

subsection \<open>Registering an asset\<close>

text \<open>
  Claim C9, as the code has it. \<^verbatim>\<open>add_asset\<close> succeeds for every room id within the
  signed 64-bit range, whether a room with that id exists or not: it never looks at the
  table of rooms. The record it returns carries the identifier assigned to the new row,
  the room id as given, and the timestamp read at the call as \<^verbatim>\<open>last_inspected\<close>; the row
  it stores is that record, listed after the assets that were there. (A room id outside
  that range cannot be bound to the \<^verbatim>\<open>INSERT\<close>, which raises \<^verbatim>\<open>OverflowError\<close> and stores
  nothing.)
\<close>

theorem add_asset_any_room:
  assumes "sqlite_int room_id"
  shows "\<exists>a s'. add_asset s now room_id name asset_type serial_number purchase_date
                   condition notes = (Inr a, s') \<and>
          a = \<lparr>a_id = next_rowid (seq_assets s) (map acol_id (tbl_assets s)),
               a_room_id = room_id, a_name = name, a_asset_type = asset_type,
               a_serial_number = serial_number, a_purchase_date = purchase_date,
               a_condition = condition, a_last_inspected = now, a_notes = notes\<rparr> \<and>
          list_assets s' None = Inr (map Asset_of_row (tbl_assets s) @ [a]) \<and>
          tbl_rooms s' = tbl_rooms s \<and> tbl_buildings s' = tbl_buildings s"
  using assms by (simp add: add_asset_def Let_def list_assets_def)

theorem add_asset_any_room_witness:
  "sqlite_int 99 \<and> 99 \<notin> set (map rcol_id (tbl_rooms hq_store)) \<and>
   fst (add_asset hq_store ''2024-02-01T10:00:00'' 99 ''Lamp'' ''equipment'' [] [] ''good'' [])
     = Inr \<lparr>a_id = 3, a_room_id = 99, a_name = ''Lamp'', a_asset_type = ''equipment'',
            a_serial_number = [], a_purchase_date = [], a_condition = ''good'',
            a_last_inspected = ''2024-02-01T10:00:00'', a_notes = []\<rparr>"
proof -
  have r: "sqlite_int 99" by (simp add: sqlite_int_def)
  have i: "next_rowid (seq_assets hq_store) (map acol_id (tbl_assets hq_store)) = 3"
    by (simp add: next_rowid_def hq_store_def)
  have n: "99 \<notin> set (map rcol_id (tbl_rooms hq_store))"
    by (simp add: hq_store_def)
  from add_asset_any_room [OF r,
    of hq_store "''2024-02-01T10:00:00''" "''Lamp''" "''equipment''" "[]" "[]" "''good''" "[]"]
  obtain a s' where
    "add_asset hq_store ''2024-02-01T10:00:00'' 99 ''Lamp'' ''equipment'' [] [] ''good'' []
       = (Inr a, s')"
    "a = \<lparr>a_id = next_rowid (seq_assets hq_store) (map acol_id (tbl_assets hq_store)),
          a_room_id = 99, a_name = ''Lamp'', a_asset_type = ''equipment'',
          a_serial_number = [], a_purchase_date = [], a_condition = ''good'',
          a_last_inspected = ''2024-02-01T10:00:00'', a_notes = []\<rparr>"
    by blast
  with i have "fst (add_asset hq_store ''2024-02-01T10:00:00'' 99 ''Lamp'' ''equipment'' [] []
      ''good'' [])
     = Inr \<lparr>a_id = 3, a_room_id = 99, a_name = ''Lamp'', a_asset_type = ''equipment'',
            a_serial_number = [], a_purchase_date = [], a_condition = ''good'',
            a_last_inspected = ''2024-02-01T10:00:00'', a_notes = []\<rparr>"
    by simp
  with r n show ?thesis by (intro conjI)
qed

theorem add_asset_out_of_range_counterexample:
  "add_asset hq_store ''2024-02-01T10:00:00'' 9223372036854775808 ''Lamp'' ''equipment''
     [] [] ''good'' [] =
   (Inl (OverflowError ''Python int too large to convert to SQLite INTEGER''), hq_store)"
  by (simp add: add_asset_def sqlite_int_def overflow_error_def)

subsection \<open>Sequences of registrations\<close>

lemma add_building_other_tables:
  "tbl_rooms (snd (add_building s now name address floors sqft building_type)) = tbl_rooms s"
  "tbl_assets (snd (add_building s now name address floors sqft building_type)) = tbl_assets s"
  "db_path (snd (add_building s now name address floors sqft building_type)) = db_path s"
  by (simp_all add: add_building_def Let_def)

lemma add_room_other_tables:
  "tbl_buildings (snd (add_room s now building_name room_name floor' capacity room_type)) =
     tbl_buildings s"
  "tbl_assets (snd (add_room s now building_name room_name floor' capacity room_type)) =
     tbl_assets s"
  "db_path (snd (add_room s now building_name room_name floor' capacity room_type)) = db_path s"
  by (simp_all add: add_room_def Let_def split: option.splits)

lemma add_asset_other_tables:
  "tbl_buildings (snd (add_asset s now room_id name asset_type serial_number purchase_date
                        condition notes)) = tbl_buildings s"
  "tbl_rooms (snd (add_asset s now room_id name asset_type serial_number purchase_date
                    condition notes)) = tbl_rooms s"
  "db_path (snd (add_asset s now room_id name asset_type serial_number purchase_date
                  condition notes)) = db_path s"
  by (simp_all add: add_asset_def Let_def)

lemma register_buildings_Cons:
  "register_buildings s ((now, name, address, floors, sqft, building_type) # calls) =
     register_buildings (snd (add_building s now name address floors sqft building_type)) calls"
  by (simp add: register_buildings_def)

lemma register_rooms_Cons:
  "register_rooms s ((now, building_name, room_name, floor', capacity, room_type) # calls) =
     register_rooms (snd (add_room s now building_name room_name floor' capacity room_type))
       calls"
  by (simp add: register_rooms_def)

lemma register_assets_Cons:
  "register_assets s
     ((now, room_id, name, asset_type, serial_number, purchase_date, condition, notes) # calls) =
     register_assets (snd (add_asset s now room_id name asset_type serial_number purchase_date
                             condition notes)) calls"
  by (simp add: register_assets_def)

lemma register_buildings_other_tables:
  "tbl_rooms (register_buildings s calls) = tbl_rooms s \<and>
   tbl_assets (register_buildings s calls) = tbl_assets s \<and>
   db_path (register_buildings s calls) = db_path s"
proof (induction calls arbitrary: s)
  case Nil
  show ?case by (simp add: register_buildings_def)
next
  case (Cons c calls)
  obtain now name address floors sqft building_type
    where c: "c = (now, name, address, floors, sqft, building_type)"
    by (rule prod_cases6)
  show ?case
    unfolding c register_buildings_Cons
    by (simp add: Cons.IH add_building_other_tables)
qed

lemma register_buildings_count:
  assumes "distinct (map bcol_name (tbl_buildings s) @ map (\<lambda>c. fst (snd c)) calls)"
    and "list_all building_call_ok calls"
  shows "length (filter (\<lambda>r. bcol_active r = 1) (tbl_buildings (register_buildings s calls))) =
           length (filter (\<lambda>r. bcol_active r = 1) (tbl_buildings s)) + length calls \<and>
         set (map bcol_name (tbl_buildings (register_buildings s calls))) =
           set (map bcol_name (tbl_buildings s)) \<union> set (map (\<lambda>c. fst (snd c)) calls)"
  using assms
proof (induction calls arbitrary: s)
  case Nil
  show ?case by (simp add: register_buildings_def)
next
  case (Cons c calls)
  obtain now name address floors sqft building_type
    where c: "c = (now, name, address, floors, sqft, building_type)"
    by (rule prod_cases6)
  define s1 where "s1 = snd (add_building s now name address floors sqft building_type)"
  from Cons.prems(2) c have ok: "sqlite_int floors" "bindable_num sqft"
    and oks: "list_all building_call_ok calls"
    by (simp_all add: building_call_ok_def)
  from Cons.prems(1) c have fresh: "name \<notin> set (map bcol_name (tbl_buildings s))"
    by auto
  with ok have t: "tbl_buildings s1 = tbl_buildings s @
      [(next_rowid (seq_buildings s) (map bcol_id (tbl_buildings s)),
        name, address, floors, sqlite_real sqft, building_type, now, 1)]"
    by (simp add: s1_def add_building_fresh)
  with Cons.prems(1) c
  have "distinct (map bcol_name (tbl_buildings s1) @ map (\<lambda>c. fst (snd c)) calls)"
    by auto
  from this oks
  have "length (filter (\<lambda>r. bcol_active r = 1)
                 (tbl_buildings (register_buildings s1 calls))) =
           length (filter (\<lambda>r. bcol_active r = 1) (tbl_buildings s1)) + length calls \<and>
         set (map bcol_name (tbl_buildings (register_buildings s1 calls))) =
           set (map bcol_name (tbl_buildings s1)) \<union> set (map (\<lambda>c. fst (snd c)) calls)"
    by (rule Cons.IH)
  with t show ?case
    unfolding c register_buildings_Cons s1_def [symmetric] by auto
qed

lemma register_rooms_count:
  assumes "\<forall>c \<in> set calls. fst (snd c) \<in> set (map bcol_name (tbl_buildings s))"
    and "list_all room_call_ok calls"
  shows "length (tbl_rooms (register_rooms s calls)) = length (tbl_rooms s) + length calls \<and>
         length (filter (\<lambda>r. rcol_status r = ''available'') (tbl_rooms (register_rooms s calls)))
           = length (filter (\<lambda>r. rcol_status r = ''available'') (tbl_rooms s)) + length calls \<and>
         tbl_buildings (register_rooms s calls) = tbl_buildings s \<and>
         tbl_assets (register_rooms s calls) = tbl_assets s \<and>
         db_path (register_rooms s calls) = db_path s"
  using assms
proof (induction calls arbitrary: s)
  case Nil
  show ?case by (simp add: register_rooms_def)
next
  case (Cons c calls)
  obtain now building_name room_name floor' capacity room_type
    where c: "c = (now, building_name, room_name, floor', capacity, room_type)"
    by (rule prod_cases6)
  define s1 where
    "s1 = snd (add_room s now building_name room_name floor' capacity room_type)"
  from Cons.prems(2) c have ok: "sqlite_int floor'" "sqlite_int capacity"
    and oks: "list_all room_call_ok calls"
    by (simp_all add: room_call_ok_def)
  from Cons.prems(1) c have "building_name \<in> set (map bcol_name (tbl_buildings s))"
    by simp
  then have "select_building_id s building_name \<noteq> None"
    by (simp add: select_building_id_None)
  then obtain b where "select_building_id s building_name = Some b"
    by blast
  with ok have t: "tbl_rooms s1 = tbl_rooms s @
      [(next_rowid (seq_rooms s) (map rcol_id (tbl_rooms s)),
        b, room_name, floor', capacity, room_type, ''available'', now)]"
    by (simp add: s1_def add_room_known)
  have o: "tbl_buildings s1 = tbl_buildings s" "tbl_assets s1 = tbl_assets s"
    "db_path s1 = db_path s"
    by (simp_all add: s1_def add_room_other_tables)
  with Cons.prems(1)
  have "\<forall>c \<in> set calls. fst (snd c) \<in> set (map bcol_name (tbl_buildings s1))"
    by simp
  from this oks
  have "length (tbl_rooms (register_rooms s1 calls)) =
           length (tbl_rooms s1) + length calls \<and>
         length (filter (\<lambda>r. rcol_status r = ''available'')
                   (tbl_rooms (register_rooms s1 calls)))
           = length (filter (\<lambda>r. rcol_status r = ''available'') (tbl_rooms s1)) + length calls \<and>
         tbl_buildings (register_rooms s1 calls) = tbl_buildings s1 \<and>
         tbl_assets (register_rooms s1 calls) = tbl_assets s1 \<and>
         db_path (register_rooms s1 calls) = db_path s1"
    by (rule Cons.IH)
  with t o show ?case
    unfolding c register_rooms_Cons s1_def [symmetric] by simp
qed

lemma register_assets_count:
  assumes "list_all asset_call_ok calls"
  shows "length (tbl_assets (register_assets s calls)) = length (tbl_assets s) + length calls \<and>
   tbl_buildings (register_assets s calls) = tbl_buildings s \<and>
   tbl_rooms (register_assets s calls) = tbl_rooms s \<and>
   db_path (register_assets s calls) = db_path s"
  using assms
proof (induction calls arbitrary: s)
  case Nil
  show ?case by (simp add: register_assets_def)
next
  case (Cons c calls)
  obtain now room_id name asset_type serial_number purchase_date condition notes'
    where c: "c = (now, room_id, name, asset_type, serial_number, purchase_date, condition,
                   notes')"
    by (metis surj_pair)
  define s1 where "s1 = snd (add_asset s now room_id name asset_type serial_number
                                purchase_date condition notes')"
  from Cons.prems c have ok: "sqlite_int room_id" and oks: "list_all asset_call_ok calls"
    by (simp_all add: asset_call_ok_def)
  from ok have t: "length (tbl_assets s1) = length (tbl_assets s) + 1"
    by (simp add: s1_def add_asset_row)
  have o: "tbl_buildings s1 = tbl_buildings s" "tbl_rooms s1 = tbl_rooms s"
    "db_path s1 = db_path s"
    by (simp_all add: s1_def add_asset_other_tables)
  from oks
  have "length (tbl_assets (register_assets s1 calls)) = length (tbl_assets s1) + length calls \<and>
   tbl_buildings (register_assets s1 calls) = tbl_buildings s1 \<and>
   tbl_rooms (register_assets s1 calls) = tbl_rooms s1 \<and>
   db_path (register_assets s1 calls) = db_path s1"
    by (rule Cons.IH)
  with t o show ?case
    unfolding c register_assets_Cons s1_def [symmetric] by simp
qed

subsection \<open>The summary\<close>

text \<open>
  Claim C3. \<^verbatim>\<open>status\<close> reports the number of buildings whose \<^verbatim>\<open>active\<close> column is 1, the
  number of all rooms, the number of rooms whose status is exactly \<^verbatim>\<open>available\<close>, the
  number of all assets, and the path of the store. Starting from the empty store, after
  registering buildings under pairwise different names, then rooms under names of those
  buildings, then assets, it reports as many active buildings as were registered, as many
  rooms, all of them available, and as many assets: 2, 3, 3 and 5 for two buildings, three
  rooms and five assets. The registrations are those that the store accepts: calls whose
  integers lie within the signed 64-bit range. (In a call, the name of the building is
  the component after the timestamp.)
\<close>

theorem status_counts:
  assumes "distinct (map (\<lambda>c. fst (snd c)) bcalls)"
    and "set (map (\<lambda>c. fst (snd c)) rcalls) \<subseteq> set (map (\<lambda>c. fst (snd c)) bcalls)"
    and "list_all building_call_ok bcalls"
    and "list_all room_call_ok rcalls"
    and "list_all asset_call_ok acalls"
  shows "status s =
           \<lparr>active_buildings =
              int (length (filter (\<lambda>r. bcol_active r = 1) (tbl_buildings s))),
            total_rooms = int (length (tbl_rooms s)),
            available_rooms =
              int (length (filter (\<lambda>r. rcol_status r = ''available'') (tbl_rooms s))),
            total_assets = int (length (tbl_assets s)),
            status_db_path = db_path s\<rparr> \<and>
         status (register_assets (register_rooms (register_buildings (empty_store p) bcalls)
                   rcalls) acalls) =
           \<lparr>active_buildings = int (length bcalls), total_rooms = int (length rcalls),
            available_rooms = int (length rcalls), total_assets = int (length acalls),
            status_db_path = p\<rparr> \<and>
         (length bcalls = 2 \<longrightarrow> length rcalls = 3 \<longrightarrow> length acalls = 5 \<longrightarrow>
            status (register_assets (register_rooms (register_buildings (empty_store p) bcalls)
                      rcalls) acalls) =
              \<lparr>active_buildings = 2, total_rooms = 3, available_rooms = 3, total_assets = 5,
               status_db_path = p\<rparr>)"
proof -
  define s1 where "s1 = register_buildings (empty_store p) bcalls"
  define s2 where "s2 = register_rooms s1 rcalls"
  define s3 where "s3 = register_assets s2 acalls"
  from assms(1)
  have "distinct (map bcol_name (tbl_buildings (empty_store p)) @ map (\<lambda>c. fst (snd c)) bcalls)"
    by (simp add: empty_store_def)
  from this assms(3)
  have "length (filter (\<lambda>r. bcol_active r = 1) (tbl_buildings s1)) =
           length (filter (\<lambda>r. bcol_active r = 1) (tbl_buildings (empty_store p)))
             + length bcalls \<and>
         set (map bcol_name (tbl_buildings s1)) =
           set (map bcol_name (tbl_buildings (empty_store p))) \<union>
             set (map (\<lambda>c. fst (snd c)) bcalls)"
    unfolding s1_def by (rule register_buildings_count)
  then have b1: "length (filter (\<lambda>r. bcol_active r = 1) (tbl_buildings s1)) = length bcalls"
    and n1: "set (map bcol_name (tbl_buildings s1)) = set (map (\<lambda>c. fst (snd c)) bcalls)"
    by (simp_all add: empty_store_def)
  have o1: "tbl_rooms s1 = []" "tbl_assets s1 = []" "db_path s1 = p"
    using register_buildings_other_tables [of "empty_store p" bcalls]
    by (simp_all add: s1_def empty_store_def)
  from assms(2) n1
  have "\<forall>c \<in> set rcalls. fst (snd c) \<in> set (map bcol_name (tbl_buildings s1))"
    by auto
  from this assms(4)
  have "length (tbl_rooms s2) = length (tbl_rooms s1) + length rcalls \<and>
         length (filter (\<lambda>r. rcol_status r = ''available'') (tbl_rooms s2))
           = length (filter (\<lambda>r. rcol_status r = ''available'') (tbl_rooms s1))
               + length rcalls \<and>
         tbl_buildings s2 = tbl_buildings s1 \<and>
         tbl_assets s2 = tbl_assets s1 \<and>
         db_path s2 = db_path s1"
    unfolding s2_def by (rule register_rooms_count)
  with o1 b1 have r2: "length (tbl_rooms s2) = length rcalls"
    "length (filter (\<lambda>r. rcol_status r = ''available'') (tbl_rooms s2)) = length rcalls"
    "length (filter (\<lambda>r. bcol_active r = 1) (tbl_buildings s2)) = length bcalls"
    "tbl_assets s2 = []" "db_path s2 = p"
    by simp_all
  from assms(5)
  have "length (tbl_assets s3) = length (tbl_assets s2) + length acalls \<and>
        tbl_buildings s3 = tbl_buildings s2 \<and> tbl_rooms s3 = tbl_rooms s2 \<and>
        db_path s3 = db_path s2"
    unfolding s3_def by (rule register_assets_count)
  with r2 have scen: "status s3 =
           \<lparr>active_buildings = int (length bcalls), total_rooms = int (length rcalls),
            available_rooms = int (length rcalls), total_assets = int (length acalls),
            status_db_path = p\<rparr>"
    by (simp add: status_def)
  have gen: "status s =
           \<lparr>active_buildings =
              int (length (filter (\<lambda>r. bcol_active r = 1) (tbl_buildings s))),
            total_rooms = int (length (tbl_rooms s)),
            available_rooms =
              int (length (filter (\<lambda>r. rcol_status r = ''available'') (tbl_rooms s))),
            total_assets = int (length (tbl_assets s)),
            status_db_path = db_path s\<rparr>"
    by (simp add: status_def)
  from scen have inst: "length bcalls = 2 \<longrightarrow> length rcalls = 3 \<longrightarrow> length acalls = 5 \<longrightarrow>
            status s3 =
              \<lparr>active_buildings = 2, total_rooms = 3, available_rooms = 3, total_assets = 5,
               status_db_path = p\<rparr>"
    by simp
  show ?thesis
    using gen scen inst unfolding s3_def s2_def s1_def by (intro conjI)
qed

theorem status_counts_witness:
  "distinct (map (\<lambda>c. fst (snd c)) demo_building_calls) \<and>
   set (map (\<lambda>c. fst (snd c)) demo_room_calls)
     \<subseteq> set (map (\<lambda>c. fst (snd c)) demo_building_calls) \<and>
   list_all building_call_ok demo_building_calls \<and>
   list_all room_call_ok demo_room_calls \<and>
   list_all asset_call_ok demo_asset_calls \<and>
   length demo_building_calls = 2 \<and> length demo_room_calls = 3 \<and>
   length demo_asset_calls = 5 \<and>
   status (register_assets (register_rooms (register_buildings (empty_store ''fm.db'')
       demo_building_calls) demo_room_calls) demo_asset_calls) =
     \<lparr>active_buildings = 2, total_rooms = 3, available_rooms = 3, total_assets = 5,
      status_db_path = ''fm.db''\<rparr>"
proof -
  have d: "distinct (map (\<lambda>c. fst (snd c)) demo_building_calls)"
    by (simp add: demo_building_calls_def)
  have m: "set (map (\<lambda>c. fst (snd c)) demo_room_calls)
      \<subseteq> set (map (\<lambda>c. fst (snd c)) demo_building_calls)"
    by (simp add: demo_building_calls_def demo_room_calls_def)
  have kb: "list_all building_call_ok demo_building_calls"
    by (simp add: demo_building_calls_def building_call_ok_def sqlite_int_def)
  have kr: "list_all room_call_ok demo_room_calls"
    by (simp add: demo_room_calls_def room_call_ok_def sqlite_int_def)
  have ka: "list_all asset_call_ok demo_asset_calls"
    by (simp add: demo_asset_calls_def asset_call_ok_def sqlite_int_def)
  have l: "length demo_building_calls = 2" "length demo_room_calls = 3"
    "length demo_asset_calls = 5"
    by (simp_all add: demo_building_calls_def demo_room_calls_def demo_asset_calls_def)
  from status_counts [OF d m kb kr ka, of "empty_store ''fm.db''" "''fm.db''"]
  have "length demo_building_calls = 2 \<longrightarrow> length demo_room_calls = 3 \<longrightarrow>
        length demo_asset_calls = 5 \<longrightarrow>
        status (register_assets (register_rooms (register_buildings (empty_store ''fm.db'')
            demo_building_calls) demo_room_calls) demo_asset_calls) =
          \<lparr>active_buildings = 2, total_rooms = 3, available_rooms = 3, total_assets = 5,
           status_db_path = ''fm.db''\<rparr>"
    by (rule conjunct2 [THEN conjunct2])
  with l have "status (register_assets (register_rooms
        (register_buildings (empty_store ''fm.db'') demo_building_calls) demo_room_calls)
        demo_asset_calls) =
          \<lparr>active_buildings = 2, total_rooms = 3, available_rooms = 3, total_assets = 5,
           status_db_path = ''fm.db''\<rparr>"
    by blast
  with d m kb kr ka l show ?thesis by (intro conjI)
qed

subsection \<open>The export\<close>

lemma add_building_result:
  assumes "add_building s now name address floors sqft building_type = (Inr b, s')"
  shows "b_total_sqft b = sqft \<and>
         b\<lparr>b_total_sqft := sqlite_real sqft\<rparr> \<in> Building_of_row ` set (tbl_buildings s')"
proof (cases "sqlite_int floors \<and> bindable_num sqft")
  case False
  with assms show ?thesis by (simp add: add_building_overflow)
next
  case ok: True
  show ?thesis
  proof (cases "name \<in> set (map bcol_name (tbl_buildings s))")
    case True
    with assms ok show ?thesis by (simp add: add_building_taken)
  next
    case False
    define i where "i = next_rowid (seq_buildings s) (map bcol_id (tbl_buildings s))"
    have row: "Building_of_row
                 (i, name, address, floors, sqlite_real sqft, building_type, now, 1) =
               \<lparr>b_id = i, b_name = name, b_address = address, b_floors = floors,
                b_total_sqft = sqlite_real sqft, b_building_type = building_type,
                b_created_at = now, b_active = 1\<rparr>"
      by simp
    from assms ok False
    have b: "b = \<lparr>b_id = i, b_name = name, b_address = address, b_floors = floors,
                  b_total_sqft = sqft, b_building_type = building_type, b_created_at = now,
                  b_active = 1\<rparr>"
      and s': "tbl_buildings s' = tbl_buildings s @
                 [(i, name, address, floors, sqlite_real sqft, building_type, now, 1)]"
      by (auto simp: add_building_fresh i_def)
    from b have "b\<lparr>b_total_sqft := sqlite_real sqft\<rparr> =
        Building_of_row (i, name, address, floors, sqlite_real sqft, building_type, now, 1)"
      by (simp add: row)
    moreover have "(i, name, address, floors, sqlite_real sqft, building_type, now, 1)
        \<in> set (tbl_buildings s')"
      by (simp add: s')
    ultimately have "b\<lparr>b_total_sqft := sqlite_real sqft\<rparr>
        \<in> Building_of_row ` set (tbl_buildings s')"
      by (simp only: imageI)
    with b show ?thesis by simp
  qed
qed

lemma add_room_result_row:
  assumes "add_room s now building_name room_name floor' capacity room_type = (Inr r, s')"
  shows "r \<in> Room_of_row ` set (tbl_rooms s')"
proof (cases "select_building_id s building_name")
  case None
  with assms show ?thesis by (simp add: add_room_no_building)
next
  case (Some b)
  show ?thesis
  proof (cases "sqlite_int floor' \<and> sqlite_int capacity")
    case False
    with assms Some show ?thesis by (simp add: add_room_overflow)
  next
    case True
    with assms Some show ?thesis by (auto simp: add_room_known)
  qed
qed

lemma add_asset_result_row:
  assumes "add_asset s now room_id name asset_type serial_number purchase_date condition notes
             = (Inr a, s')"
  shows "a \<in> Asset_of_row ` set (tbl_assets s')"
proof (cases "sqlite_int room_id")
  case False
  with assms show ?thesis by (simp add: add_asset_overflow)
next
  case True
  with assms show ?thesis by (auto simp: add_asset_row)
qed

lemma add_building_keeps_rows:
  "set (tbl_buildings s) \<subseteq>
     set (tbl_buildings (snd (add_building s now name address floors sqft building_type)))"
  by (simp add: add_building_def Let_def subset_insertI)

lemma add_room_keeps_rows:
  "set (tbl_rooms s) \<subseteq>
     set (tbl_rooms (snd (add_room s now building_name room_name floor' capacity room_type)))"
  by (simp add: add_room_def Let_def subset_insertI split: option.splits)

lemma add_asset_keeps_rows:
  "set (tbl_assets s) \<subseteq>
     set (tbl_assets (snd (add_asset s now room_id name asset_type serial_number purchase_date
                             condition notes)))"
  by (simp add: add_asset_def Let_def subset_insertI)

lemma export_subset_tables:
  assumes "set (tbl_buildings s) \<subseteq> set (tbl_buildings s')"
    and "set (tbl_rooms s) \<subseteq> set (tbl_rooms s')"
    and "set (tbl_assets s) \<subseteq> set (tbl_assets s')"
  shows "export_subset (export_data s t) (export_data s' t')"
  using assms by (simp add: export_subset_def export_data_def image_mono)

lemma asdict_Building_inj:
  assumes "asdict_Building b1 = asdict_Building b2"
  shows "b1 = b2"
  using assms by (cases b1, cases b2) (simp add: asdict_Building_def)

lemma asdict_Room_inj:
  assumes "asdict_Room r1 = asdict_Room r2"
  shows "r1 = r2"
  using assms by (cases r1, cases r2) (simp add: asdict_Room_def)

lemma asdict_Asset_inj:
  assumes "asdict_Asset a1 = asdict_Asset a2"
  shows "a1 = a2"
  using assms by (cases a1, cases a2) (simp add: asdict_Asset_def)

lemma inactive_not_listed:
  assumes "bcol_active row \<noteq> 1"
  shows "Building_of_row row \<notin> set (list_buildings s)"
proof
  assume "Building_of_row row \<in> set (list_buildings s)"
  then have "Building_of_row row \<in>
      Building_of_row ` {r \<in> set (tbl_buildings s). bcol_active r = 1}"
    by (simp add: list_buildings_def)
  then obtain r where r: "bcol_active r = 1" "Building_of_row row = Building_of_row r"
    by blast
  from r(2) have "b_active (Building_of_row row) = b_active (Building_of_row r)"
    by simp
  with r(1) assms show False by simp
qed

lemma set_export_data:
  "set (exp_buildings (export_data s t)) =
     asdict_Building ` (Building_of_row ` set (tbl_buildings s))"
  "set (exp_rooms (export_data s t)) = asdict_Room ` (Room_of_row ` set (tbl_rooms s))"
  "set (exp_assets (export_data s t)) = asdict_Asset ` (Asset_of_row ` set (tbl_assets s))"
  by (simp_all add: export_data_def image_image)

text \<open>
  Claim C4. \<^verbatim>\<open>export_data\<close> returns every row of the three tables as a dictionary of its
  fields, with no filter on \<^verbatim>\<open>active\<close>: a building that \<^verbatim>\<open>list_buildings\<close> leaves out
  because its flag is not 1 is exported all the same. The record that a successful
  \<^verbatim>\<open>add_room\<close> or \<^verbatim>\<open>add_asset\<close> returns is in the export of the store it leaves, field
  by field (two records with the same dictionary are equal). So is the record that a
  successful \<^verbatim>\<open>add_building\<close> returns, with the area as the \<^verbatim>\<open>REAL\<close> column gives it back:
  that is the area passed when it is a float that is a number (or \<^verbatim>\<open>None\<close>), and a float
  that Python's \<^verbatim>\<open>==\<close> finds equal to it when it is an integer that a double represents.
  Every later registration keeps what was exported before. Two exports of the same store
  hold the same buildings, rooms and assets and differ in their timestamps only.
\<close>

theorem export_data_complete:
  "exp_buildings (export_data s t) =
     map asdict_Building (map Building_of_row (tbl_buildings s)) \<and>
   exp_rooms (export_data s t) = map asdict_Room (map Room_of_row (tbl_rooms s)) \<and>
   exp_assets (export_data s t) = map asdict_Asset (map Asset_of_row (tbl_assets s)) \<and>
   (add_building s now name address floors sqft building_type = (Inr b, sb) \<longrightarrow>
      asdict_Building (b\<lparr>b_total_sqft := sqlite_real sqft\<rparr>)
        \<in> set (exp_buildings (export_data sb t)) \<and>
      (storable_num sqft \<longrightarrow> py_eq (sqlite_real sqft) (b_total_sqft b)) \<and>
      (sqlite_real sqft = sqft \<longrightarrow>
         asdict_Building b \<in> set (exp_buildings (export_data sb t)))) \<and>
   (add_room s now building_name room_name floor' capacity room_type = (Inr r, sr) \<longrightarrow>
      asdict_Room r \<in> set (exp_rooms (export_data sr t))) \<and>
   (add_asset s now room_id aname asset_type serial_number purchase_date condition anotes
      = (Inr a, sa) \<longrightarrow>
      asdict_Asset a \<in> set (exp_assets (export_data sa t))) \<and>
   export_subset (export_data s t)
     (export_data (snd (add_building s now name address floors sqft building_type)) t') \<and>
   export_subset (export_data s t)
     (export_data (snd (add_room s now building_name room_name floor' capacity room_type))
        t') \<and>
   export_subset (export_data s t)
     (export_data (snd (add_asset s now room_id aname asset_type serial_number purchase_date
                          condition anotes)) t') \<and>
   (row \<in> set (tbl_buildings s) \<longrightarrow> bcol_active row \<noteq> 1 \<longrightarrow>
      asdict_Building (Building_of_row row) \<in> set (exp_buildings (export_data s t)) \<and>
      Building_of_row row \<notin> set (list_buildings s)) \<and>
   (asdict_Building b1 = asdict_Building b2 \<longrightarrow> b1 = b2) \<and>
   (asdict_Room r1 = asdict_Room r2 \<longrightarrow> r1 = r2) \<and>
   (asdict_Asset a1 = asdict_Asset a2 \<longrightarrow> a1 = a2) \<and>
   exp_buildings (export_data s t1) = exp_buildings (export_data s t2) \<and>
   exp_rooms (export_data s t1) = exp_rooms (export_data s t2) \<and>
   exp_assets (export_data s t1) = exp_assets (export_data s t2) \<and>
   exported_at (export_data s t1) = t1 \<and> exported_at (export_data s t2) = t2"
proof -
  have rows: "exp_buildings (export_data s t) =
      map asdict_Building (map Building_of_row (tbl_buildings s))"
    "exp_rooms (export_data s t) = map asdict_Room (map Room_of_row (tbl_rooms s))"
    "exp_assets (export_data s t) = map asdict_Asset (map Asset_of_row (tbl_assets s))"
    by (simp_all add: export_data_def)
  have cb: "add_building s now name address floors sqft building_type = (Inr b, sb) \<longrightarrow>
      asdict_Building (b\<lparr>b_total_sqft := sqlite_real sqft\<rparr>)
        \<in> set (exp_buildings (export_data sb t)) \<and>
      (storable_num sqft \<longrightarrow> py_eq (sqlite_real sqft) (b_total_sqft b)) \<and>
      (sqlite_real sqft = sqft \<longrightarrow>
         asdict_Building b \<in> set (exp_buildings (export_data sb t)))"
  proof
    assume "add_building s now name address floors sqft building_type = (Inr b, sb)"
    then have f: "b_total_sqft b = sqft"
      and m: "b\<lparr>b_total_sqft := sqlite_real sqft\<rparr> \<in> Building_of_row ` set (tbl_buildings sb)"
      by (simp_all add: add_building_result)
    from m have x: "asdict_Building (b\<lparr>b_total_sqft := sqlite_real sqft\<rparr>)
        \<in> set (exp_buildings (export_data sb t))"
      unfolding set_export_data by (rule imageI)
    from f have y: "storable_num sqft \<longrightarrow> py_eq (sqlite_real sqft) (b_total_sqft b)"
      by (simp add: storable_py_eq)
    have z: "sqlite_real sqft = sqft \<longrightarrow>
         asdict_Building b \<in> set (exp_buildings (export_data sb t))"
    proof
      assume "sqlite_real sqft = sqft"
      with f have "b\<lparr>b_total_sqft := sqlite_real sqft\<rparr> = b" by simp
      with x show "asdict_Building b \<in> set (exp_buildings (export_data sb t))" by simp
    qed
    from x y z show "asdict_Building (b\<lparr>b_total_sqft := sqlite_real sqft\<rparr>)
        \<in> set (exp_buildings (export_data sb t)) \<and>
      (storable_num sqft \<longrightarrow> py_eq (sqlite_real sqft) (b_total_sqft b)) \<and>
      (sqlite_real sqft = sqft \<longrightarrow>
         asdict_Building b \<in> set (exp_buildings (export_data sb t)))"
      by (intro conjI)
  qed
  have cr: "add_room s now building_name room_name floor' capacity room_type = (Inr r, sr) \<longrightarrow>
      asdict_Room r \<in> set (exp_rooms (export_data sr t))"
  proof
    assume "add_room s now building_name room_name floor' capacity room_type = (Inr r, sr)"
    then have "r \<in> Room_of_row ` set (tbl_rooms sr)"
      by (rule add_room_result_row)
    then show "asdict_Room r \<in> set (exp_rooms (export_data sr t))"
      unfolding set_export_data by (rule imageI)
  qed
  have ca: "add_asset s now room_id aname asset_type serial_number purchase_date condition anotes
      = (Inr a, sa) \<longrightarrow>
      asdict_Asset a \<in> set (exp_assets (export_data sa t))"
  proof
    assume "add_asset s now room_id aname asset_type serial_number purchase_date condition anotes
      = (Inr a, sa)"
    then have "a \<in> Asset_of_row ` set (tbl_assets sa)"
      by (rule add_asset_result_row)
    then show "asdict_Asset a \<in> set (exp_assets (export_data sa t))"
      unfolding set_export_data by (rule imageI)
  qed
  have kb: "export_subset (export_data s t)
     (export_data (snd (add_building s now name address floors sqft building_type)) t')"
    by (rule export_subset_tables)
       (simp_all add: add_building_keeps_rows add_building_other_tables)
  have kr: "export_subset (export_data s t)
     (export_data (snd (add_room s now building_name room_name floor' capacity room_type))
        t')"
    by (rule export_subset_tables)
       (simp_all add: add_room_keeps_rows add_room_other_tables)
  have ka: "export_subset (export_data s t)
     (export_data (snd (add_asset s now room_id aname asset_type serial_number purchase_date
                          condition anotes)) t')"
    by (rule export_subset_tables)
       (simp_all add: add_asset_keeps_rows add_asset_other_tables)
  have ina: "row \<in> set (tbl_buildings s) \<longrightarrow> bcol_active row \<noteq> 1 \<longrightarrow>
      asdict_Building (Building_of_row row) \<in> set (exp_buildings (export_data s t)) \<and>
      Building_of_row row \<notin> set (list_buildings s)"
    by (simp add: set_export_data inactive_not_listed)
  have inj: "asdict_Building b1 = asdict_Building b2 \<longrightarrow> b1 = b2"
    "asdict_Room r1 = asdict_Room r2 \<longrightarrow> r1 = r2"
    "asdict_Asset a1 = asdict_Asset a2 \<longrightarrow> a1 = a2"
    using asdict_Building_inj asdict_Room_inj asdict_Asset_inj by blast+
  have twice: "exp_buildings (export_data s t1) = exp_buildings (export_data s t2)"
    "exp_rooms (export_data s t1) = exp_rooms (export_data s t2)"
    "exp_assets (export_data s t1) = exp_assets (export_data s t2)"
    "exported_at (export_data s t1) = t1" "exported_at (export_data s t2) = t2"
    by (simp_all add: export_data_def)
  show ?thesis
    by (intro conjI) (rule rows cb cr ca kb kr ka ina inj twice)+
qed

theorem export_data_complete_witness:
  "(add_building hq_store ''2024-03-01T08:00:00'' ''Lab'' ''3 Back St'' 2 (PyInt 800) ''lab'' =
     (Inr \<lparr>b_id = 3, b_name = ''Lab'', b_address = ''3 Back St'', b_floors = 2,
        b_total_sqft = PyInt 800, b_building_type = ''lab'', b_created_at = ''2024-03-01T08:00:00'',
        b_active = 1\<rparr>,
      snd (add_building hq_store ''2024-03-01T08:00:00'' ''Lab'' ''3 Back St'' 2 (PyInt 800) ''lab''))) \<and>
   (storable_num (PyInt 800)) \<and>
   (asdict_Building \<lparr>b_id = 3, b_name = ''Lab'', b_address = ''3 Back St'', b_floors = 2,
        b_total_sqft = PyFloat 800, b_building_type = ''lab'', b_created_at = ''2024-03-01T08:00:00'',
        b_active = 1\<rparr>
     \<in> set (exp_buildings (export_data (snd (add_building hq_store ''2024-03-01T08:00:00'' ''Lab'' ''3 Back St'' 2 (PyInt 800) ''lab'')) ''2024-04-01T12:00:00''))) \<and>
   (py_eq (PyFloat 800) (PyInt 800)) \<and>
   (add_building hq_store ''2024-03-01T08:00:00'' ''Shed'' [] 1 (PyFloat 120) ''storage'' =
     (Inr \<lparr>b_id = 3, b_name = ''Shed'', b_address = [], b_floors = 1,
        b_total_sqft = PyFloat 120, b_building_type = ''storage'',
        b_created_at = ''2024-03-01T08:00:00'', b_active = 1\<rparr>,
      snd (add_building hq_store ''2024-03-01T08:00:00'' ''Shed'' [] 1 (PyFloat 120) ''storage''))) \<and>
   (sqlite_real (PyFloat 120) = PyFloat 120) \<and>
   (asdict_Building \<lparr>b_id = 3, b_name = ''Shed'', b_address = [], b_floors = 1,
        b_total_sqft = PyFloat 120, b_building_type = ''storage'',
        b_created_at = ''2024-03-01T08:00:00'', b_active = 1\<rparr>
     \<in> set (exp_buildings (export_data (snd (add_building hq_store ''2024-03-01T08:00:00'' ''Shed'' [] 1 (PyFloat 120) ''storage'')) ''2024-04-01T12:00:00''))) \<and>
   (add_room hq_store ''2024-03-01T08:00:00'' ''HQ'' ''Room 102'' 1 8 ''office'' =
     (Inr \<lparr>r_id = 3, r_building_id = 1, r_name = ''Room 102'', r_floor = 1, r_capacity = 8,
        r_room_type = ''office'', r_status = ''available'',
        r_created_at = ''2024-03-01T08:00:00''\<rparr>,
      snd (add_room hq_store ''2024-03-01T08:00:00'' ''HQ'' ''Room 102'' 1 8 ''office''))) \<and>
   (asdict_Room \<lparr>r_id = 3, r_building_id = 1, r_name = ''Room 102'', r_floor = 1, r_capacity = 8,
        r_room_type = ''office'', r_status = ''available'',
        r_created_at = ''2024-03-01T08:00:00''\<rparr>
     \<in> set (exp_rooms (export_data (snd (add_room hq_store ''2024-03-01T08:00:00'' ''HQ'' ''Room 102'' 1 8 ''office'')) ''2024-04-01T12:00:00''))) \<and>
   (add_asset hq_store ''2024-03-01T08:00:00'' 99 ''Lamp'' ''equipment'' [] [] ''good'' [] =
     (Inr \<lparr>a_id = 3, a_room_id = 99, a_name = ''Lamp'', a_asset_type = ''equipment'',
        a_serial_number = [], a_purchase_date = [], a_condition = ''good'',
        a_last_inspected = ''2024-03-01T08:00:00'', a_notes = []\<rparr>,
      snd (add_asset hq_store ''2024-03-01T08:00:00'' 99 ''Lamp'' ''equipment'' [] [] ''good'' []))) \<and>
   (asdict_Asset \<lparr>a_id = 3, a_room_id = 99, a_name = ''Lamp'', a_asset_type = ''equipment'',
        a_serial_number = [], a_purchase_date = [], a_condition = ''good'',
        a_last_inspected = ''2024-03-01T08:00:00'', a_notes = []\<rparr>
     \<in> set (exp_assets (export_data (snd (add_asset hq_store ''2024-03-01T08:00:00'' 99 ''Lamp'' ''equipment'' [] [] ''good'' [])) ''2024-04-01T12:00:00''))) \<and>
   ((2, ''Annex'', [], 1, PyFloat 0, ''warehouse'', ''2024-01-02T09:00:00'', 0)
     \<in> set (tbl_buildings hq_store)) \<and>
   (bcol_active (2, ''Annex'', [], 1, PyFloat 0, ''warehouse'', ''2024-01-02T09:00:00'', 0) \<noteq> 1) \<and>
   (asdict_Building (Building_of_row (2, ''Annex'', [], 1, PyFloat 0, ''warehouse'', ''2024-01-02T09:00:00'', 0))
     \<in> set (exp_buildings (export_data hq_store ''2024-04-01T12:00:00''))) \<and>
   (Building_of_row (2, ''Annex'', [], 1, PyFloat 0, ''warehouse'', ''2024-01-02T09:00:00'', 0)
     \<notin> set (list_buildings hq_store)) \<and>
   (exp_buildings (export_data hq_store ''2024-04-01T12:00:00'') = exp_buildings (export_data hq_store ''2024-04-01T12:00:05'')) \<and>
   (exp_rooms (export_data hq_store ''2024-04-01T12:00:00'') = exp_rooms (export_data hq_store ''2024-04-01T12:00:05'')) \<and>
   (exp_assets (export_data hq_store ''2024-04-01T12:00:00'') = exp_assets (export_data hq_store ''2024-04-01T12:00:05'')) \<and>
   (exported_at (export_data hq_store ''2024-04-01T12:00:00'') = ''2024-04-01T12:00:00'') \<and>
   (exported_at (export_data hq_store ''2024-04-01T12:00:05'') = ''2024-04-01T12:00:05'')"
proof -
  have hb: "add_building hq_store ''2024-03-01T08:00:00'' ''Lab'' ''3 Back St'' 2 (PyInt 800) ''lab'' =
     (Inr \<lparr>b_id = 3, b_name = ''Lab'', b_address = ''3 Back St'', b_floors = 2,
        b_total_sqft = PyInt 800, b_building_type = ''lab'', b_created_at = ''2024-03-01T08:00:00'',
        b_active = 1\<rparr>,
      snd (add_building hq_store ''2024-03-01T08:00:00'' ''Lab'' ''3 Back St'' 2 (PyInt 800) ''lab''))"
    by (simp add: add_building_def Let_def next_rowid_def hq_store_def sqlite_int_def)
  have st: "storable_num (PyInt 800)"
    by (simp add: sqlite_int_def int_to_double_def)
  have cv: "sqlite_real (PyInt 800) = PyFloat 800"
    by (simp add: int_to_double_def)
  have hr: "add_room hq_store ''2024-03-01T08:00:00'' ''HQ'' ''Room 102'' 1 8 ''office'' =
     (Inr \<lparr>r_id = 3, r_building_id = 1, r_name = ''Room 102'', r_floor = 1, r_capacity = 8,
        r_room_type = ''office'', r_status = ''available'',
        r_created_at = ''2024-03-01T08:00:00''\<rparr>,
      snd (add_room hq_store ''2024-03-01T08:00:00'' ''HQ'' ''Room 102'' 1 8 ''office''))"
    by (simp add: add_room_def select_building_id_def Let_def next_rowid_def hq_store_def
        sqlite_int_def)
  have ha: "add_asset hq_store ''2024-03-01T08:00:00'' 99 ''Lamp'' ''equipment'' [] [] ''good'' [] =
     (Inr \<lparr>a_id = 3, a_room_id = 99, a_name = ''Lamp'', a_asset_type = ''equipment'',
        a_serial_number = [], a_purchase_date = [], a_condition = ''good'',
        a_last_inspected = ''2024-03-01T08:00:00'', a_notes = []\<rparr>,
      snd (add_asset hq_store ''2024-03-01T08:00:00'' 99 ''Lamp'' ''equipment'' [] [] ''good'' []))"
    by (simp add: add_asset_def Let_def next_rowid_def hq_store_def sqlite_int_def)
  have hrow: "(2, ''Annex'', [], 1, PyFloat 0, ''warehouse'', ''2024-01-02T09:00:00'', 0)
     \<in> set (tbl_buildings hq_store)"
    by (simp add: hq_store_def)
  have hact: "bcol_active (2, ''Annex'', [], 1, PyFloat 0, ''warehouse'', ''2024-01-02T09:00:00'', 0) \<noteq> 1"
    by simp
  note th = export_data_complete [where s = hq_store and t = "''2024-04-01T12:00:00''" and ?t1.0 = "''2024-04-01T12:00:00''"
      and ?t2.0 = "''2024-04-01T12:00:05''" and t' = "''2024-04-01T12:00:05''" and now = "''2024-03-01T08:00:00''"
      and name = "''Lab''" and address = "''3 Back St''" and floors = 2 and sqft = "PyInt 800"
      and building_type = "''lab''"
      and b = "\<lparr>b_id = 3, b_name = ''Lab'', b_address = ''3 Back St'', b_floors = 2,
        b_total_sqft = PyInt 800, b_building_type = ''lab'', b_created_at = ''2024-03-01T08:00:00'',
        b_active = 1\<rparr>"
      and sb = "snd (add_building hq_store ''2024-03-01T08:00:00'' ''Lab'' ''3 Back St'' 2 (PyInt 800) ''lab'')"
      and building_name = "''HQ''" and room_name = "''Room 102''" and floor' = 1
      and capacity = 8 and room_type = "''office''"
      and r = "\<lparr>r_id = 3, r_building_id = 1, r_name = ''Room 102'', r_floor = 1, r_capacity = 8,
        r_room_type = ''office'', r_status = ''available'',
        r_created_at = ''2024-03-01T08:00:00''\<rparr>"
      and sr = "snd (add_room hq_store ''2024-03-01T08:00:00'' ''HQ'' ''Room 102'' 1 8 ''office'')"
      and room_id = 99 and aname = "''Lamp''" and asset_type = "''equipment''"
      and serial_number = "[]" and purchase_date = "[]" and condition = "''good''"
      and anotes = "[]"
      and a = "\<lparr>a_id = 3, a_room_id = 99, a_name = ''Lamp'', a_asset_type = ''equipment'',
        a_serial_number = [], a_purchase_date = [], a_condition = ''good'',
        a_last_inspected = ''2024-03-01T08:00:00'', a_notes = []\<rparr>"
      and sa = "snd (add_asset hq_store ''2024-03-01T08:00:00'' 99 ''Lamp'' ''equipment'' [] [] ''good'' [])"
      and row = "(2, ''Annex'', [], 1, PyFloat 0, ''warehouse'', ''2024-01-02T09:00:00'', 0)"
      and ?b1.0 = "\<lparr>b_id = 3, b_name = ''Lab'', b_address = ''3 Back St'', b_floors = 2,
        b_total_sqft = PyInt 800, b_building_type = ''lab'', b_created_at = ''2024-03-01T08:00:00'',
        b_active = 1\<rparr>" and ?b2.0 = "\<lparr>b_id = 3, b_name = ''Lab'', b_address = ''3 Back St'', b_floors = 2,
        b_total_sqft = PyInt 800, b_building_type = ''lab'', b_created_at = ''2024-03-01T08:00:00'',
        b_active = 1\<rparr>"
      and ?r1.0 = "\<lparr>r_id = 3, r_building_id = 1, r_name = ''Room 102'', r_floor = 1, r_capacity = 8,
        r_room_type = ''office'', r_status = ''available'',
        r_created_at = ''2024-03-01T08:00:00''\<rparr>" and ?r2.0 = "\<lparr>r_id = 3, r_building_id = 1, r_name = ''Room 102'', r_floor = 1, r_capacity = 8,
        r_room_type = ''office'', r_status = ''available'',
        r_created_at = ''2024-03-01T08:00:00''\<rparr>"
      and ?a1.0 = "\<lparr>a_id = 3, a_room_id = 99, a_name = ''Lamp'', a_asset_type = ''equipment'',
        a_serial_number = [], a_purchase_date = [], a_condition = ''good'',
        a_last_inspected = ''2024-03-01T08:00:00'', a_notes = []\<rparr>" and ?a2.0 = "\<lparr>a_id = 3, a_room_id = 99, a_name = ''Lamp'', a_asset_type = ''equipment'',
        a_serial_number = [], a_purchase_date = [], a_condition = ''good'',
        a_last_inspected = ''2024-03-01T08:00:00'', a_notes = []\<rparr>"]
  have hb2: "add_building hq_store ''2024-03-01T08:00:00'' ''Shed'' [] 1 (PyFloat 120) ''storage'' =
     (Inr \<lparr>b_id = 3, b_name = ''Shed'', b_address = [], b_floors = 1,
        b_total_sqft = PyFloat 120, b_building_type = ''storage'',
        b_created_at = ''2024-03-01T08:00:00'', b_active = 1\<rparr>,
      snd (add_building hq_store ''2024-03-01T08:00:00'' ''Shed'' [] 1 (PyFloat 120) ''storage''))"
    by (simp add: add_building_def Let_def next_rowid_def hq_store_def sqlite_int_def)
  have keep: "sqlite_real (PyFloat 120) = PyFloat 120"
    by simp
  note th2 = export_data_complete [where s = hq_store and t = "''2024-04-01T12:00:00''" and now = "''2024-03-01T08:00:00''"
      and name = "''Shed''" and address = "[]" and floors = 1 and sqft = "PyFloat 120"
      and building_type = "''storage''"
      and b = "\<lparr>b_id = 3, b_name = ''Shed'', b_address = [], b_floors = 1,
        b_total_sqft = PyFloat 120, b_building_type = ''storage'',
        b_created_at = ''2024-03-01T08:00:00'', b_active = 1\<rparr>"
      and sb = "snd (add_building hq_store ''2024-03-01T08:00:00'' ''Shed'' [] 1 (PyFloat 120) ''storage'')"]
  note c2 = th2 [THEN conjunct2, THEN conjunct2, THEN conjunct2, THEN conjunct1,
      THEN mp, OF hb2, THEN conjunct2, THEN conjunct2, THEN mp, OF keep]
  note r3 = th [THEN conjunct2, THEN conjunct2, THEN conjunct2]
  note r6 = r3 [THEN conjunct2, THEN conjunct2, THEN conjunct2]
  note r9 = r6 [THEN conjunct2, THEN conjunct2, THEN conjunct2]
  note r13 = r9 [THEN conjunct2, THEN conjunct2, THEN conjunct2, THEN conjunct2]
  note bld = r3 [THEN conjunct1, THEN mp, OF hb]
  from bld [THEN conjunct1] cv have cb: "asdict_Building \<lparr>b_id = 3, b_name = ''Lab'', b_address = ''3 Back St'', b_floors = 2,
        b_total_sqft = PyFloat 800, b_building_type = ''lab'', b_created_at = ''2024-03-01T08:00:00'',
        b_active = 1\<rparr>
     \<in> set (exp_buildings (export_data (snd (add_building hq_store ''2024-03-01T08:00:00'' ''Lab'' ''3 Back St'' 2 (PyInt 800) ''lab'')) ''2024-04-01T12:00:00''))"
    by simp
  from bld [THEN conjunct2, THEN conjunct1, THEN mp, OF st] cv have pq: "py_eq (PyFloat 800) (PyInt 800)"
    by simp
  note cr = r3 [THEN conjunct2, THEN conjunct1, THEN mp, OF hr]
  note ca = r3 [THEN conjunct2, THEN conjunct2, THEN conjunct1, THEN mp, OF ha]
  note rw = r9 [THEN conjunct1, THEN mp, OF hrow, THEN mp, OF hact]
  note crow = rw [THEN conjunct1]
  note nrow = rw [THEN conjunct2]
  note tw = r13 [THEN conjunct1] r13 [THEN conjunct2, THEN conjunct1]
    r13 [THEN conjunct2, THEN conjunct2, THEN conjunct1]
    r13 [THEN conjunct2, THEN conjunct2, THEN conjunct2, THEN conjunct1]
    r13 [THEN conjunct2, THEN conjunct2, THEN conjunct2, THEN conjunct2]
  show ?thesis
    by (intro conjI) (rule hb st cb pq hb2 keep c2 hr cr ha ca hrow hact crow nrow tw)+
qed

end
